theory Spec2Isabelle
  imports Complex_Main "HOL-Library.Sublist"
begin

text \<open>
  The server of the HoyaList homeowner site, \<open>server.js\<close>: the handler of \<open>POST /lead\<close>, which
  normalizes and validates a form, geocodes its ZIP code and writes two documents in one batch,
  with its helpers \<open>isValidEmail\<close> and \<open>geocodeZipWithGoogle\<close>; and the handler of \<open>GET /go\<close>,
  which redirects by user agent. The definitions follow the code, statement by statement; what
  lies outside the code (the posted form, the environment, the network, the generated
  identifier, the outcome of the commit) is an argument of the functions.
\<close>

section \<open>Strings\<close>

text \<open>
  A JavaScript string is modelled as a \<^typ>\<open>string\<close>: a list of code units, restricted to
  the code units \<open>0..255\<close> (Latin-1). The functions below are the JavaScript built-ins the
  server calls, on that range.
\<close>

definition isSpace :: "char \<Rightarrow> bool" where
  \<comment> \<open>the class \<open>\s\<close>, which is also what \<open>String.prototype.trim\<close> strips: TAB, LF, VT,
     FF, CR, SP and NBSP are its members below 256\<close>
  "isSpace c \<longleftrightarrow> c \<in> set [CHR 0x09, CHR 0x0A, CHR 0x0B, CHR 0x0C, CHR 0x0D, CHR 0x20, CHR 0xA0]"

definition isDigit :: "char \<Rightarrow> bool" where
  \<comment> \<open>the class \<open>\d\<close>\<close>
  "isDigit c \<longleftrightarrow> c \<in> set ''0123456789''"

definition trim :: "string \<Rightarrow> string" where
  "trim s = rev (dropWhile isSpace (rev (dropWhile isSpace s)))"

definition lowerChar :: "char \<Rightarrow> char" where
  \<comment> \<open>A-Z, and the Latin-1 capitals 0xC0-0xDE without the multiplication sign 0xD7\<close>
  "lowerChar c =
     (let n = (of_char c :: nat)
      in if (65 \<le> n \<and> n \<le> 90) \<or> (192 \<le> n \<and> n \<le> 222 \<and> n \<noteq> 215)
         then char_of (n + 32) else c)"

definition toLowerCase :: "string \<Rightarrow> string" where
  "toLowerCase s = map lowerChar s"

fun includesStr :: "string \<Rightarrow> string \<Rightarrow> bool" where
  \<comment> \<open>\<open>s.includes(t)\<close>: \<open>t\<close> occurs in \<open>s\<close> at some position\<close>
  "includesStr [] t = (t = [])"
| "includesStr (c # cs) t = (prefix t (c # cs) \<or> includesStr cs t)"

definition hexDigit :: "nat \<Rightarrow> char" where
  "hexDigit n = ''0123456789ABCDEF'' ! (n mod 16)"

definition pct :: "nat \<Rightarrow> string" where
  \<comment> \<open>one byte, percent-encoded\<close>
  "pct n = [CHR ''%'', hexDigit (n div 16), hexDigit n]"

definition uriUnreserved :: "char \<Rightarrow> bool" where
  "uriUnreserved c \<longleftrightarrow>
     (let n = (of_char c :: nat)
      in (48 \<le> n \<and> n \<le> 57) \<or> (65 \<le> n \<and> n \<le> 90) \<or> (97 \<le> n \<and> n \<le> 122) \<or>
         c \<in> set ''-_.!~*()'' \<or> c = CHR 0x27)"

definition encodeChar :: "char \<Rightarrow> string" where
  \<comment> \<open>a code unit below 128 is one byte of UTF-8, one from 128 to 255 is two\<close>
  "encodeChar c =
     (let n = (of_char c :: nat)
      in if uriUnreserved c then [c]
         else if n < 128 then pct n
         else pct (192 + n div 64) @ pct (128 + n mod 64))"

definition encodeURIComponent :: "string \<Rightarrow> string" where
  "encodeURIComponent s = concat (map encodeChar s)"

subsection \<open>Regular expressions\<close>

text \<open>
  The three patterns of the server are anchored at both ends and are sequences of character
  classes, each with a repetition count \<open>{m,n}\<close> (\<open>+\<close> is \<open>{1,}\<close>, a single class is
  \<open>{1,1}\<close>). \<open>test\<close> is true when the whole string splits into consecutive blocks, the
  \<open>i\<close>-th block made of characters of the \<open>i\<close>-th class and of an allowed length.
\<close>

type_synonym item = "(char \<Rightarrow> bool) \<times> nat \<times> nat option"

fun test :: "item list \<Rightarrow> string \<Rightarrow> bool" where
  "test [] s = (s = [])"
| "test ((P, m, n) # r) s =
     list_ex (\<lambda>k. list_all P (take k s) \<and> test r (drop k s))
       [m ..< Suc (case n of None \<Rightarrow> length s | Some n' \<Rightarrow> min n' (length s))]"

definition one :: "(char \<Rightarrow> bool) \<Rightarrow> item" where
  "one P = (P, 1, Some 1)"

definition notSpaceAt :: "char \<Rightarrow> bool" where
  \<comment> \<open>\<open>[^\s@]\<close>\<close>
  "notSpaceAt c \<longleftrightarrow> \<not> isSpace c \<and> c \<noteq> CHR ''@''"

definition EMAIL_RE :: "item list" where
  \<comment> \<open>\<open>/^[^\s@]+@[^\s@]+\.[^\s@]{2,}$/i\<close>; the pattern has no letter, so the flag \<open>i\<close>
     changes nothing\<close>
  "EMAIL_RE = [(notSpaceAt, 1, None), one (\<lambda>c. c = CHR ''@''), (notSpaceAt, 1, None),
               one (\<lambda>c. c = CHR ''.''), (notSpaceAt, 2, None)]"

definition isValidEmail :: "string \<Rightarrow> bool" where
  "isValidEmail email = test EMAIL_RE email"

definition ZIP_RE :: "item list" where
  \<comment> \<open>\<open>/^\d{5}$/\<close>\<close>
  "ZIP_RE = [(isDigit, 5, Some 5)]"

definition e164 :: "item list" where
  \<comment> \<open>\<open>/^\+[1-9]\d{9,14}$/\<close>\<close>
  "e164 = [one (\<lambda>c. c = CHR ''+''), one (\<lambda>c. c \<in> set ''123456789''), (isDigit, 9, Some 14)]"

section \<open>Numbers\<close>

datatype number =
    Num real    \<comment> \<open>a Number with exactly this value\<close>
  | Approx nat  \<comment> \<open>the Number \<open>parseInt\<close> gives for an integer above \<open>MAX_SAFE_INTEGER\<close>:
                    an approximation of it that the language leaves to the implementation\<close>
  | NaN

definition MAX_SAFE_INTEGER :: nat where
  "MAX_SAFE_INTEGER = 9007199254740991"

definition digitVal :: "char \<Rightarrow> nat" where
  "digitVal c = of_char c - 48"

definition decimal :: "string \<Rightarrow> nat" where
  "decimal ds = foldl (\<lambda>a c. 10 * a + digitVal c) 0 ds"

definition parseInt10 :: "string \<Rightarrow> number" where
  \<comment> \<open>\<open>parseInt(s, 10)\<close> for an \<open>s\<close> that starts with neither white space nor a sign (the
     server calls it on digits only): the longest prefix of digits, read in base 10\<close>
  "parseInt10 s =
     (let ds = takeWhile isDigit s
      in if ds = [] then NaN
         else if decimal ds \<le> MAX_SAFE_INTEGER then Num (real (decimal ds))
         else Approx (decimal ds))"

fun isNaN :: "number option \<Rightarrow> bool" where
  \<comment> \<open>\<open>None\<close> is \<open>null\<close>, which \<open>isNaN\<close> reads as 0\<close>
  "isNaN (Some NaN) = True"
| "isNaN _ = False"

fun lessThanZero :: "number option \<Rightarrow> bool" where
  \<comment> \<open>\<open>v < 0\<close>\<close>
  "lessThanZero (Some (Num x)) = (x < 0)"
| "lessThanZero _ = False"

section \<open>The lead form: normalizing\<close>

text \<open>
  \<open>req.body\<close> after \<open>express.urlencoded\<close>: a mapping from field names to the strings posted;
  a field that was not posted is absent.
\<close>

type_synonym body = "string \<rightharpoonup> string"

definition field :: "body \<Rightarrow> string \<Rightarrow> string" where
  \<comment> \<open>\<open>String(req.body.k || '')\<close>\<close>
  "field b k = (case b k of None \<Rightarrow> [] | Some v \<Rightarrow> if v = [] then [] else v)"

definition isYes :: "body \<Rightarrow> string \<Rightarrow> bool" where
  \<comment> \<open>\<open>req.body.k === 'yes'\<close>\<close>
  "isYes b k \<longleftrightarrow> b k = Some ''yes''"

record candidate =
  publicUserName :: string
  publicUserEmail :: string
  rawPhone :: string
  projectText :: string
  zip :: string
  readyToHire :: bool
  urgent :: bool
  rawBudget :: string
  budgetDigits :: string
  budgetNumber :: "number option"
  publicUserConcent :: bool

definition normalize :: "body \<Rightarrow> candidate" where
  "normalize b =
     (let rawBudget = trim (field b ''budgetText'');
          budgetDigits = (if rawBudget \<noteq> [] then filter isDigit rawBudget else []);
          budgetNumber = (if budgetDigits \<noteq> [] then Some (parseInt10 budgetDigits) else None)
      in \<lparr> publicUserName = trim (field b ''name''),
           publicUserEmail = toLowerCase (trim (field b ''email'')),
           rawPhone = trim (field b ''phone''),
           projectText = trim (field b ''project''),
           zip = trim (field b ''zip''),
           readyToHire = isYes b ''readyToHire'',
           urgent = isYes b ''urgent'',
           rawBudget = rawBudget,
           budgetDigits = budgetDigits,
           budgetNumber = budgetNumber,
           publicUserConcent = isYes b ''concent'' \<rparr>)"

section \<open>The lead form: validating\<close>

text \<open>
  The six 400 responses of \<open>POST /lead\<close>, named as the specification names them; the page
  headings are "Missing information", "Email format", "Consent required", "ZIP code format",
  "Phone number format" and "Budget format".
\<close>

datatype verr =
  MissingRequired | InvalidEmail | ConsentRequired | InvalidZip | InvalidPhone | InvalidBudget

definition validate :: "candidate \<Rightarrow> verr + string" where
  \<comment> \<open>the checks of the handler, in its order; \<open>Inr\<close> carries \<open>publicUserPhone\<close>\<close>
  "validate c =
     (if publicUserName c = [] \<or> publicUserEmail c = [] \<or> projectText c = [] \<or> zip c = []
      then Inl MissingRequired
      else if \<not> isValidEmail (publicUserEmail c) then Inl InvalidEmail
      else if \<not> publicUserConcent c then Inl ConsentRequired
      else if \<not> test ZIP_RE (zip c) then Inl InvalidZip
      else if rawPhone c \<noteq> [] \<and> \<not> test e164 (rawPhone c) then Inl InvalidPhone
      else if rawBudget c \<noteq> [] \<and>
              (budgetDigits c = [] \<or> isNaN (budgetNumber c) \<or> lessThanZero (budgetNumber c))
      then Inl InvalidBudget
      else Inr (if rawPhone c \<noteq> [] then rawPhone c else []))"

subsection \<open>The validator as the specification words it\<close>

fun violates :: "verr \<Rightarrow> candidate \<Rightarrow> bool" where
  "violates MissingRequired c \<longleftrightarrow>
     publicUserName c = [] \<or> publicUserEmail c = [] \<or> projectText c = [] \<or> zip c = []"
| "violates InvalidEmail c \<longleftrightarrow> \<not> test EMAIL_RE (publicUserEmail c)"
| "violates ConsentRequired c \<longleftrightarrow> \<not> publicUserConcent c"
| "violates InvalidZip c \<longleftrightarrow> \<not> (length (zip c) = 5 \<and> list_all isDigit (zip c))"
| "violates InvalidPhone c \<longleftrightarrow>
     rawPhone c \<noteq> [] \<and>
     \<not> (case rawPhone c of
          p # d # ds \<Rightarrow> p = CHR ''+'' \<and> d \<in> set ''123456789'' \<and> list_all isDigit ds \<and>
                        9 \<le> length ds \<and> length ds \<le> 14
        | _ \<Rightarrow> False)"
| "violates InvalidBudget c \<longleftrightarrow>
     rawBudget c \<noteq> [] \<and>
     (budgetDigits c = [] \<or> lessThanZero (budgetNumber c) \<or> isNaN (budgetNumber c))"

definition checks :: "verr list" where
  "checks = [MissingRequired, InvalidEmail, ConsentRequired, InvalidZip, InvalidPhone, InvalidBudget]"

definition first_violation :: "candidate \<Rightarrow> verr option" where
  "first_violation c = find (\<lambda>k. violates k c) checks"

section \<open>The geocoder client\<close>

text \<open>
  The JSON document of the geocoding service, typed as the service documents it. A property
  that the code reads through \<open>?.\<close> or \<open>||\<close> may be missing (\<open>None\<close>); \<open>lat\<close> and \<open>lng\<close>,
  whose type the code tests, are any scalar.
\<close>

datatype jsval = JUndefined | JNull | JBool bool | JNum number | JStr string

record gcomponent =
  long_name :: string
  short_name :: string
  types :: "string list option"

record glocation =
  lat :: jsval
  lng :: jsval

record ggeometry =
  location :: "glocation option"

record gresult =
  geometry :: "ggeometry option"
  address_components :: "gcomponent list option"

record gdata =
  status :: string
  results :: "gresult list option"

datatype fetched =
    Rejected                      \<comment> \<open>\<open>fetch\<close> rejects: no response\<close>
  | Response nat "gdata option"   \<comment> \<open>\<open>resp.status\<close> and the body; \<open>None\<close> when it is not JSON, so
                                      that \<open>resp.json()\<close> rejects\<close>

datatype geo_error =
    MissingKey               \<comment> \<open>\<open>Error('Missing GOOGLE_GEOCODING_API_KEY')\<close>\<close>
  | HttpError nat            \<comment> \<open>\<open>Error(`Google Geocoding HTTP error: ${resp.status}`)\<close>\<close>
  | GeocodingFailed string   \<comment> \<open>\<open>Error(`Google Geocoding failed: ${data.status}`)\<close>\<close>
  | InvalidLatLng            \<comment> \<open>\<open>Error('Invalid lat/lng from Google')\<close>\<close>
  | FetchRejected            \<comment> \<open>the rejection of \<open>fetch\<close>, passed on\<close>
  | JsonRejected             \<comment> \<open>the rejection of \<open>resp.json()\<close>, passed on\<close>

record geo =
  latitude :: number
  longitude :: number
  userTown :: string
  userState :: string

definition typesOf :: "gcomponent \<Rightarrow> string list" where
  \<comment> \<open>\<open>c.types || []\<close>\<close>
  "typesOf c = (case types c of None \<Rightarrow> [] | Some ts \<Rightarrow> ts)"

definition componentsOf :: "gresult \<Rightarrow> gcomponent list" where
  \<comment> \<open>\<open>r.address_components || []\<close>\<close>
  "componentsOf r = (case address_components r of None \<Rightarrow> [] | Some cs \<Rightarrow> cs)"

definition firstLoop :: "string \<times> string \<Rightarrow> gcomponent \<Rightarrow> string \<times> string" where
  \<comment> \<open>the body of the first loop, on \<open>(userTown, userState)\<close>\<close>
  "firstLoop ts c =
     (let town = (if ''locality'' \<in> set (typesOf c) then long_name c else fst ts);
          state = (if ''administrative_area_level_1'' \<in> set (typesOf c) then short_name c else snd ts)
      in (town, state))"

definition secondLoop :: "string \<Rightarrow> gcomponent \<Rightarrow> string" where
  \<comment> \<open>the body of the second loop, on \<open>userTown\<close>\<close>
  "secondLoop town c = (if ''postal_town'' \<in> set (typesOf c) then long_name c else town)"

definition locOf :: "gresult \<Rightarrow> glocation option" where
  \<comment> \<open>\<open>r.geometry?.location\<close>\<close>
  "locOf r = (case geometry r of None \<Rightarrow> None | Some g \<Rightarrow> location g)"

definition latOf :: "glocation option \<Rightarrow> jsval" where
  \<comment> \<open>\<open>loc?.lat\<close>\<close>
  "latOf loc = (case loc of None \<Rightarrow> JUndefined | Some l \<Rightarrow> lat l)"

definition lngOf :: "glocation option \<Rightarrow> jsval" where
  \<comment> \<open>\<open>loc?.lng\<close>\<close>
  "lngOf loc = (case loc of None \<Rightarrow> JUndefined | Some l \<Rightarrow> lng l)"

definition readGeo :: "gdata \<Rightarrow> geo_error + geo" where
  \<comment> \<open>\<open>geocodeZipWithGoogle\<close> from \<open>resp.json()\<close> on; \<open>typeof v === 'number'\<close> is the case
     \<open>JNum\<close>\<close>
  "readGeo data =
     (case results data of
        Some (r # _) \<Rightarrow>
          if status data \<noteq> ''OK'' then Inl (GeocodingFailed (status data))
          else (case (latOf (locOf r), lngOf (locOf r)) of
                  (JNum la, JNum lo) \<Rightarrow>
                    (let (town, state) = foldl firstLoop ([], []) (componentsOf r);
                         town' = (if town = [] then foldl secondLoop town (componentsOf r) else town)
                     in Inr \<lparr> latitude = la, longitude = lo, userTown = town', userState = state \<rparr>)
                | _ \<Rightarrow> Inl InvalidLatLng)
      | _ \<Rightarrow> Inl (GeocodingFailed (status data)))"

definition geocodeUrl :: "string \<Rightarrow> string \<Rightarrow> string" where
  "geocodeUrl key z =
     ''https://maps.googleapis.com/maps/api/geocode/json'' @
     ''?address='' @ encodeURIComponent (z @ '', USA'') @
     ''&key='' @ encodeURIComponent key"

record world =
  GOOGLE_GEOCODING_API_KEY :: "string option"  \<comment> \<open>the environment variable\<close>
  fetch :: "string \<Rightarrow> fetched"                  \<comment> \<open>what the network answers to a GET of a URL\<close>
  autoId :: string                             \<comment> \<open>the identifier that \<open>doc()\<close> generates\<close>
  commitOk :: bool                             \<comment> \<open>whether \<open>batch.commit()\<close> resolves\<close>

definition geocodeZipWithGoogle :: "world \<Rightarrow> string \<Rightarrow> (geo_error + geo) \<times> string list" where
  \<comment> \<open>the result, and the URLs requested\<close>
  "geocodeZipWithGoogle w z =
     (case GOOGLE_GEOCODING_API_KEY w of
        None \<Rightarrow> (Inl MissingKey, [])
      | Some key \<Rightarrow>
          if key = [] then (Inl MissingKey, [])
          else (let url = geocodeUrl key z
                in (case fetch w url of
                      Rejected \<Rightarrow> Inl FetchRejected
                    | Response code b \<Rightarrow>
                        if \<not> (200 \<le> code \<and> code \<le> 299) then Inl (HttpError code)
                        else (case b of None \<Rightarrow> Inl JsonRejected | Some data \<Rightarrow> readGeo data),
                    [url])))"

subsection \<open>The messages of the errors\<close>

definition digitChar :: "nat \<Rightarrow> char" where
  "digitChar n = ''0123456789'' ! (n mod 10)"

fun showNat :: "nat \<Rightarrow> string" where
  \<comment> \<open>\<open>String(n)\<close> for a natural number\<close>
  "showNat n = (if n < 10 then [digitChar n] else showNat (n div 10) @ [digitChar n])"

declare showNat.simps [simp del]

fun errorMessage :: "geo_error \<Rightarrow> string option" where
  \<comment> \<open>the message of the \<open>Error\<close> that the geocoder throws; the two rejections that it passes on
     carry the message of the runtime, which the code does not set\<close>
  "errorMessage MissingKey = Some ''Missing GOOGLE_GEOCODING_API_KEY''"
| "errorMessage (HttpError code) = Some (''Google Geocoding HTTP error: '' @ showNat code)"
| "errorMessage (GeocodingFailed st) = Some (''Google Geocoding failed: '' @ st)"
| "errorMessage InvalidLatLng = Some ''Invalid lat/lng from Google''"
| "errorMessage FetchRejected = None"
| "errorMessage JsonRejected = None"

subsection \<open>The address components, as the specification words them\<close>

definition typed :: "string \<Rightarrow> gcomponent \<Rightarrow> bool" where
  "typed t c \<longleftrightarrow> t \<in> set (typesOf c)"

definition lastTyped :: "string \<Rightarrow> gcomponent list \<Rightarrow> gcomponent option" where
  \<comment> \<open>the last component of a type, if there is one\<close>
  "lastTyped t cs =
     (if filter (typed t) cs = [] then None else Some (last (filter (typed t) cs)))"

section \<open>The lead persister and \<open>POST /lead\<close>\<close>

text \<open>
  The repository holds the server twice: \<open>server.js\<close> and a second file of unknown name. Where
  the two differ, the definitions take the variant.
\<close>

datatype variant = ServerJs | Other

datatype fsval = FStr string | FBool bool | FNum number | FNull | FServerTimestamp

type_synonym doc = "(string \<times> fsval) list"

record store =
  PublicUserInfo :: "string \<rightharpoonup> doc"
  UserLocation :: "string \<rightharpoonup> doc"

datatype collection = PublicUserInfoCol | UserLocationCol

type_synonym batch = "(collection \<times> string \<times> doc) list"

fun setDoc :: "store \<Rightarrow> collection \<times> string \<times> doc \<Rightarrow> store" where
  "setDoc db (PublicUserInfoCol, k, d) = db\<lparr> PublicUserInfo := (PublicUserInfo db)(k \<mapsto> d) \<rparr>"
| "setDoc db (UserLocationCol, k, d) = db\<lparr> UserLocation := (UserLocation db)(k \<mapsto> d) \<rparr>"

definition commit :: "batch \<Rightarrow> store \<Rightarrow> store" where
  "commit ws db = foldl setDoc db ws"

fun publicPayload :: "variant \<Rightarrow> string \<Rightarrow> candidate \<Rightarrow> string \<Rightarrow> doc" where
  "publicPayload ServerJs uid c phone =
     [(''publicUserUID'', FStr uid), (''publicUserName'', FStr (publicUserName c)),
      (''publicUserEmail'', FStr (publicUserEmail c)), (''publicUserPhone'', FStr phone),
      (''projectText'', FStr (projectText c)), (''readyToHire'', FBool (readyToHire c)),
      (''urgent'', FBool (urgent c)), (''publicUserConcent'', FBool (publicUserConcent c)),
      (''postedDate'', FServerTimestamp)] @
     (case budgetNumber c of None \<Rightarrow> [] | Some n \<Rightarrow> [(''budgetText'', FNum n)])"
| "publicPayload Other uid c phone =
     [(''publicUserUID'', FStr uid), (''publicUserName'', FStr (publicUserName c)),
      (''publicUserEmail'', FStr (publicUserEmail c)), (''publicUserPhone'', FStr phone),
      (''projectText'', FStr (projectText c)),
      (''budgetText'', (case budgetNumber c of None \<Rightarrow> FNull | Some n \<Rightarrow> FNum n)),
      (''readyToHire'', FBool (readyToHire c)),
      (''urgent'', FBool (urgent c)), (''publicUserConcent'', FBool (publicUserConcent c)),
      (''postedDate'', FServerTimestamp)]"

definition locationPayload :: "string \<Rightarrow> candidate \<Rightarrow> geo \<Rightarrow> doc" where
  "locationPayload uid c g =
     [(''uid'', FStr uid), (''name'', FStr (publicUserName c)), (''contractor'', FBool False),
      (''latitude'', FNum (latitude g)), (''longitude'', FNum (longitude g)),
      (''altitude'', FNum (Num 0)),
      (''userState'', FStr (if userState g \<noteq> [] then userState g else [])),
      (''userTown'', FStr (if userTown g \<noteq> [] then userTown g else [])),
      (''zipcode'', FStr (zip c)), (''postedDate'', FServerTimestamp)]"

datatype page =
    ErrorPage verr                 \<comment> \<open>one of the six pages of the validation\<close>
  | Submitted string "string option"
      \<comment> \<open>"Thanks! Your project was submitted.", with the ZIP and, in the second file, the
         identifier\<close>
  | SaveFailed                     \<comment> \<open>"Sorry - we could not save your request. Please try again."\<close>

record outcome =
  response :: "nat \<times> page"
  db :: store
  requests :: "string list"

definition postLead :: "variant \<Rightarrow> world \<Rightarrow> store \<Rightarrow> body \<Rightarrow> outcome" where
  "postLead v w d b =
     (let c = normalize b
      in case validate c of
           Inl k \<Rightarrow> \<lparr> response = (400, ErrorPage k), db = d, requests = [] \<rparr>
         | Inr publicUserPhone \<Rightarrow>
             (case geocodeZipWithGoogle w (zip c) of
                (Inl err, urls) \<Rightarrow> \<lparr> response = (500, SaveFailed), db = d, requests = urls \<rparr>
              | (Inr g, urls) \<Rightarrow>
                  (let publicUserUID = autoId w;
                       batch = [(PublicUserInfoCol, publicUserUID,
                                   publicPayload v publicUserUID c publicUserPhone),
                                (UserLocationCol, publicUserUID, locationPayload publicUserUID c g)]
                   in if commitOk w
                      then \<lparr> response =
                               (200, Submitted (zip c)
                                       (case v of ServerJs \<Rightarrow> None | Other \<Rightarrow> Some publicUserUID)),
                             db = commit batch d, requests = urls \<rparr>
                      else \<lparr> response = (500, SaveFailed), db = d, requests = urls \<rparr>)))"

section \<open>\<open>GET /go\<close>\<close>

definition PKG :: string where
  "PKG = ''com.hoyalist.hoyalist''"

definition AND_HTTPS :: string where
  "AND_HTTPS = ''https://play.google.com/store/apps/details?id='' @ PKG"

definition IOS_HTTPS :: string where
  "IOS_HTTPS = ''https://apps.apple.com/us/app/hoyalist/id6740706168''"

definition AND_INTENT :: string where
  "AND_INTENT =
     ''intent://details?id='' @ PKG @
     ''#Intent;scheme=market;package=com.android.vending;'' @
     ''S.browser_fallback_url='' @ encodeURIComponent AND_HTTPS @ '';end;''"

definition IOS_ITMS :: string where
  "IOS_ITMS = ''itms-apps://itunes.apple.com/app/id6740706168''"

fun FALLBACK :: "variant \<Rightarrow> string" where
  "FALLBACK ServerJs = ''/homeowners''"
| "FALLBACK Other = ''https://hoyalistapp.com''"

definition isInApp :: "string \<Rightarrow> bool" where
  "isInApp ual \<longleftrightarrow>
     includesStr ual ''fban'' \<or> includesStr ual ''fbav'' \<or> includesStr ual ''facebook'' \<or>
     includesStr ual ''instagram'' \<or> includesStr ual ''tiktok'' \<or>
     includesStr ual ''twitter'' \<or> includesStr ual ''snapchat'' \<or>
     includesStr ual ''pinterest'' \<or> includesStr ual ''gsa''"

definition go :: "variant \<Rightarrow> string option \<Rightarrow> nat \<times> string" where
  \<comment> \<open>from the header \<open>user-agent\<close>, if the request has one, to the status and the target of the
     redirect\<close>
  "go v header =
     (let ua = (case header of None \<Rightarrow> [] | Some h \<Rightarrow> if h = [] then [] else h);
          ual = toLowerCase ua;
          isAndroid = includesStr ual ''android'';
          isIOS = (includesStr ual ''iphone'' \<or> includesStr ual ''ipad'' \<or> includesStr ual ''ipod'')
      in if isAndroid then (if \<not> isInApp ual then (302, AND_INTENT) else (302, AND_HTTPS))
         else if isIOS then (if \<not> isInApp ual then (302, IOS_ITMS) else (302, IOS_HTTPS))
         else (302, FALLBACK v))"

subsection \<open>The parts of an email address that the specification names\<close>

definition domainPart :: "string \<Rightarrow> string" where
  \<comment> \<open>what follows the first \<open>@\<close>\<close>
  "domainPart e = tl (dropWhile (\<lambda>c. c \<noteq> CHR ''@'') e)"

definition afterFirstDot :: "string \<Rightarrow> string" where
  "afterFirstDot d = tl (dropWhile (\<lambda>c. c \<noteq> CHR ''.'') d)"

definition afterFinalDot :: "string \<Rightarrow> string" where
  "afterFinalDot e = rev (takeWhile (\<lambda>c. c \<noteq> CHR ''.'') (rev e))"

subsection \<open>Trimming, as the specification words it\<close>

definition trimmed :: "string \<Rightarrow> string \<Rightarrow> bool" where
  \<comment> \<open>\<open>t\<close> is \<open>raw\<close> without its leading and trailing white space\<close>
  "trimmed raw t \<longleftrightarrow>
     (\<exists>l r. raw = l @ t @ r \<and> list_all isSpace l \<and> list_all isSpace r \<and>
            (t \<noteq> [] \<longrightarrow> \<not> isSpace (hd t) \<and> \<not> isSpace (last t)))"

definition isUpperAscii :: "char \<Rightarrow> bool" where
  "isUpperAscii c \<longleftrightarrow> 65 \<le> (of_char c :: nat) \<and> (of_char c :: nat) \<le> 90"

subsection \<open>The tokens of a user agent, as the specification words them\<close>

definition hasToken :: "string \<Rightarrow> string \<Rightarrow> bool" where
  \<comment> \<open>the user agent contains the token, whatever the case of its letters\<close>
  "hasToken ua t \<longleftrightarrow> (\<exists>p s. toLowerCase ua = p @ t @ s)"

definition inAppTokens :: "string list" where
  "inAppTokens = [''fban'', ''fbav'', ''facebook'', ''instagram'', ''tiktok'', ''twitter'',
                  ''snapchat'', ''pinterest'', ''gsa'']"

section \<open>Sample inputs\<close>

definition lead0 :: candidate where
  \<comment> \<open>a candidate that passes every check, with neither phone nor budget\<close>
  "lead0 = \<lparr> publicUserName = ''Ann'', publicUserEmail = ''a@b.co'', rawPhone = [],
     projectText = ''roof'', zip = ''06119'', readyToHire = False, urgent = False,
     rawBudget = [], budgetDigits = [], budgetNumber = None, publicUserConcent = True \<rparr>"

definition body0 :: body where
  \<comment> \<open>a form that passes every check, with neither phone nor budget\<close>
  "body0 = [''name'' \<mapsto> '' Ann '', ''email'' \<mapsto> ''A@B.co'', ''project'' \<mapsto> ''roof'',
            ''zip'' \<mapsto> ''06119'', ''concent'' \<mapsto> ''yes'']"

definition uaAndroid :: string where
  "uaAndroid = ''Mozilla/5.0 (Linux; Android 13; Pixel 7) Chrome/120''"

definition uaAndroidFacebook :: string where
  "uaAndroidFacebook = ''Mozilla/5.0 (Linux; Android 13; Pixel 7) Chrome/120 [FBAN/EMA]''"

definition uaIPhone :: string where
  "uaIPhone = ''Mozilla/5.0 (iPhone; CPU iPhone OS 17_0) Safari/604''"

definition uaIPhoneInstagram :: string where
  "uaIPhoneInstagram = ''Mozilla/5.0 (iPhone; CPU iPhone OS 17_0) Instagram 300''"

definition uaDesktop :: string where
  "uaDesktop = ''Mozilla/5.0 (Windows NT 10.0; Win64; x64) Firefox/121''"

definition component :: "string \<Rightarrow> string \<Rightarrow> string list \<Rightarrow> gcomponent" where
  "component l s ts = \<lparr> long_name = l, short_name = s, types = Some ts \<rparr>"

definition geometryAt :: "jsval \<Rightarrow> jsval \<Rightarrow> ggeometry option" where
  "geometryAt la lo = Some \<lparr> location = Some \<lparr> lat = la, lng = lo \<rparr> \<rparr>"

definition data0 :: gdata where
  \<comment> \<open>an answer for the ZIP code 06119\<close>
  "data0 = \<lparr> status = ''OK'',
             results = Some [\<lparr> geometry = geometryAt (JNum (Num 41.76)) (JNum (Num (- 72.73))),
               address_components = Some
                 [component ''06119'' ''06119'' [''postal_code''],
                  component ''West Hartford'' ''West Hartford'' [''locality'', ''political''],
                  component ''Connecticut'' ''CT'' [''administrative_area_level_1'', ''political''],
                  component ''United States'' ''US'' [''country'', ''political'']] \<rparr>] \<rparr>"

definition dataEmptyLocality :: gdata where
  \<comment> \<open>an answer whose component of type locality has an empty name\<close>
  "dataEmptyLocality = \<lparr> status = ''OK'',
             results = Some [\<lparr> geometry = geometryAt (JNum (Num 51.38)) (JNum (Num (- 2.36))),
               address_components = Some
                 [component [] [] [''locality''],
                  component ''Bath'' ''Bath'' [''postal_town'']] \<rparr>] \<rparr>"

definition world0 :: "fetched \<Rightarrow> world" where
  \<comment> \<open>a server with a key, whose request for 06119 is answered as given\<close>
  "world0 answer = \<lparr> GOOGLE_GEOCODING_API_KEY = Some ''KEY'',
       fetch = (\<lambda>url. if url = geocodeUrl ''KEY'' ''06119'' then answer else Rejected),
       autoId = ''id1'', commitOk = True \<rparr>"

definition store0 :: store where
  \<comment> \<open>the two collections, empty\<close>
  "store0 = \<lparr> PublicUserInfo = Map.empty, UserLocation = Map.empty \<rparr>"

definition geo0 :: geo where
  "geo0 = \<lparr> latitude = Num 41.76, longitude = Num (- 72.73),
             userTown = ''West Hartford'', userState = ''CT'' \<rparr>"

section \<open>Properties\<close>

subsection \<open>What the three patterns accept\<close>

lemma list_ex_upt: "list_ex Q [m ..< Suc h] \<longleftrightarrow> (\<exists>k. m \<le> k \<and> k \<le> h \<and> Q k)"
proof -
  have "\<And>k. k \<in> set [m ..< Suc h] \<longleftrightarrow> m \<le> k \<and> k \<le> h"
    by (simp only: set_upt atLeastLessThan_iff less_Suc_eq_le)
  then show ?thesis
    by (simp only: list_ex_iff Bex_def conj_assoc)
qed

lemma test_Cons_index: "test ((P, m, n) # r) s \<longleftrightarrow>
   (\<exists>k. m \<le> k \<and> k \<le> (case n of None \<Rightarrow> length s | Some n' \<Rightarrow> min n' (length s)) \<and>
        list_all P (take k s) \<and> test r (drop k s))"
  by (simp only: test.simps list_ex_upt)


lemma test_Cons: "test ((P, m, n) # r) s \<longleftrightarrow>
   (\<exists>a b. s = a @ b \<and> m \<le> length a \<and> (\<forall>n'. n = Some n' \<longrightarrow> length a \<le> n') \<and> list_all P a \<and> test r b)"
  (is "?L = ?R")
proof
  assume ?L
  then obtain k where k: "m \<le> k"
      "k \<le> (case n of None \<Rightarrow> length s | Some n' \<Rightarrow> min n' (length s))"
      "list_all P (take k s)" "test r (drop k s)"
    unfolding test_Cons_index by (elim exE conjE)
  have len: "length (take k s) = k"
    using k(2) by (cases n) simp_all
  have up: "\<forall>n'. n = Some n' \<longrightarrow> k \<le> n'"
    using k(2) by (cases n) simp_all
  have "s = take k s @ drop k s \<and> m \<le> length (take k s) \<and>
        (\<forall>n'. n = Some n' \<longrightarrow> length (take k s) \<le> n') \<and> list_all P (take k s) \<and> test r (drop k s)"
    unfolding len using k up by simp
  then show ?R by (intro exI[of _ "take k s"] exI[of _ "drop k s"])
next
  assume ?R
  then obtain a b where ab: "s = a @ b" "m \<le> length a" "\<forall>n'. n = Some n' \<longrightarrow> length a \<le> n'"
     "list_all P a" "test r b" by (elim exE conjE)
  have "length a \<le> (case n of None \<Rightarrow> length s | Some n' \<Rightarrow> min n' (length s))"
    using ab(1,3) by (cases n) simp_all
  moreover have "list_all P (take (length a) s)" "test r (drop (length a) s)"
    using ab by simp_all
  ultimately show ?L
    unfolding test_Cons_index using ab(2) by (intro exI[of _ "length a"] conjI)
qed


declare test.simps(2) [simp del]

lemma test_one: "test (one P # r) s \<longleftrightarrow> (\<exists>c t. s = c # t \<and> P c \<and> test r t)"
proof
  assume "test (one P # r) s"
  then obtain a b where ab: "s = a @ b" "1 \<le> length a" "length a \<le> 1" "list_all P a" "test r b"
    unfolding one_def test_Cons by auto
  then obtain c where "a = [c]" by (cases a) auto
  with ab show "\<exists>c t. s = c # t \<and> P c \<and> test r t" by auto
next
  assume "\<exists>c t. s = c # t \<and> P c \<and> test r t"
  then obtain c t where "s = [c] @ t" "P c" "test r t" by auto
  then show "test (one P # r) s"
    unfolding one_def test_Cons by (intro exI[of _ "[c]"] exI[of _ t]) simp
qed

lemma test_last: "test [(P, m, n)] s \<longleftrightarrow>
   m \<le> length s \<and> (\<forall>n'. n = Some n' \<longrightarrow> length s \<le> n') \<and> list_all P s"
  unfolding test_Cons by auto

lemma zip_iff: "test ZIP_RE z \<longleftrightarrow> length z = 5 \<and> list_all isDigit z"
  unfolding ZIP_RE_def test_last by auto


lemma e164_iff: "test e164 p \<longleftrightarrow>
  (case p of
     a # d # ds \<Rightarrow> a = CHR ''+'' \<and> d \<in> set ''123456789'' \<and> list_all isDigit ds \<and>
                   9 \<le> length ds \<and> length ds \<le> 14
   | _ \<Rightarrow> False)"
proof (cases p)
  case Nil
  then show ?thesis unfolding e164_def test_one by simp
next
  case (Cons a q)
  show ?thesis
  proof (cases q)
    case Nil
    with Cons show ?thesis unfolding e164_def test_one by simp
  next
    case (Cons d ds)
    with \<open>p = a # q\<close> show ?thesis unfolding e164_def test_one test_last by auto
  qed
qed

lemma email_iff: "isValidEmail e \<longleftrightarrow>
  (\<exists>a b c. e = a @ CHR ''@'' # b @ CHR ''.'' # c \<and> a \<noteq> [] \<and> b \<noteq> [] \<and> 2 \<le> length c \<and>
           list_all notSpaceAt a \<and> list_all notSpaceAt b \<and> list_all notSpaceAt c)"
  (is "_ = ?R")
proof
  assume "isValidEmail e"
  then obtain a r1 where a: "e = a @ r1" "1 \<le> length a" "list_all notSpaceAt a"
    and r1: "test [one (\<lambda>c. c = CHR ''@''), (notSpaceAt, 1, None),
                   one (\<lambda>c. c = CHR ''.''), (notSpaceAt, 2, None)] r1"
    unfolding isValidEmail_def EMAIL_RE_def test_Cons[of _ _ _ _ e] by (elim exE conjE)
  from r1 obtain r2 where r2: "r1 = CHR ''@'' # r2"
      "test [(notSpaceAt, 1, None), one (\<lambda>c. c = CHR ''.''), (notSpaceAt, 2, None)] r2"
    unfolding test_one[of _ _ r1] by (elim exE conjE) simp
  from r2(2) obtain b r3 where b: "r2 = b @ r3" "1 \<le> length b" "list_all notSpaceAt b"
    and r3: "test [one (\<lambda>c. c = CHR ''.''), (notSpaceAt, 2, None)] r3"
    unfolding test_Cons[of _ _ _ _ r2] by (elim exE conjE)
  from r3 obtain c where c: "r3 = CHR ''.'' # c" "test [(notSpaceAt, 2, None)] c"
    unfolding test_one[of _ _ r3] by (elim exE conjE) simp
  from c(2) have c2: "2 \<le> length c" "list_all notSpaceAt c"
    unfolding test_last by simp_all
  have "e = a @ CHR ''@'' # b @ CHR ''.'' # c \<and> a \<noteq> [] \<and> b \<noteq> [] \<and> 2 \<le> length c \<and>
        list_all notSpaceAt a \<and> list_all notSpaceAt b \<and> list_all notSpaceAt c"
    using a b c(1) c2 r2(1) by auto
  then show ?R by (intro exI)
next
  assume ?R
  then obtain a b c where e: "e = a @ CHR ''@'' # b @ CHR ''.'' # c" "a \<noteq> []" "b \<noteq> []"
      "2 \<le> length c" "list_all notSpaceAt a" "list_all notSpaceAt b" "list_all notSpaceAt c"
    by (elim exE conjE)
  have t4: "test [(notSpaceAt, 2, None)] c"
    unfolding test_last using e by simp
  have t3: "test [one (\<lambda>c. c = CHR ''.''), (notSpaceAt, 2, None)] (CHR ''.'' # c)"
    unfolding test_one using t4 by simp
  have t2: "test [(notSpaceAt, 1, None), one (\<lambda>c. c = CHR ''.''), (notSpaceAt, 2, None)]
              (b @ CHR ''.'' # c)"
    unfolding test_Cons[of _ _ _ _ "b @ CHR ''.'' # c"] using t3 e
    by (intro exI[of _ b] exI[of _ "CHR ''.'' # c"]) (simp add: Suc_le_eq)
  have t1: "test [one (\<lambda>c. c = CHR ''@''), (notSpaceAt, 1, None),
                  one (\<lambda>c. c = CHR ''.''), (notSpaceAt, 2, None)] (CHR ''@'' # b @ CHR ''.'' # c)"
    unfolding test_one[of _ _ "CHR ''@'' # b @ CHR ''.'' # c"] using t2 by simp
  show "isValidEmail e"
    unfolding isValidEmail_def EMAIL_RE_def test_Cons[of _ _ _ _ e] using t1 e
    by (intro exI[of _ a] exI[of _ "CHR ''@'' # b @ CHR ''.'' # c"]) (simp add: Suc_le_eq)
qed

subsection \<open>The order of the checks\<close>

text \<open>
  C2. On every candidate record the handler answers with the first check, in the order
  MissingRequired, InvalidEmail, ConsentRequired, InvalidZip, InvalidPhone, InvalidBudget, that
  the record violates, each check as the specification words it, and with no error when it
  violates none; the six kinds are distinct; a record with an empty name and no consent is
  answered MissingRequired.
\<close>

theorem validate_order:
  "validate c = (case first_violation c of Some k \<Rightarrow> Inl k | None \<Rightarrow> Inr (rawPhone c)) \<and>
   checks = [MissingRequired, InvalidEmail, ConsentRequired, InvalidZip, InvalidPhone, InvalidBudget] \<and>
   distinct checks \<and>
   validate (c\<lparr> publicUserName := [], publicUserConcent := False \<rparr>) = Inl MissingRequired"
  by (simp add: validate_def first_violation_def checks_def zip_iff e164_iff isValidEmail_def)

theorem validate_order_witness:
  "first_violation (lead0\<lparr> publicUserConcent := False, zip := ''1'' \<rparr>) = Some ConsentRequired \<and>
   validate (lead0\<lparr> publicUserConcent := False, zip := ''1'' \<rparr>) = Inl ConsentRequired"
proof -
  have fv: "first_violation (lead0\<lparr> publicUserConcent := False, zip := ''1'' \<rparr>) = Some ConsentRequired"
    by (simp add: first_violation_def checks_def lead0_def EMAIL_RE_def one_def notSpaceAt_def
        isSpace_def isDigit_def test.simps)
  show ?thesis
    using validate_order [of "lead0\<lparr> publicUserConcent := False, zip := ''1'' \<rparr>", THEN conjunct1]
    by (simp only: fv option.case simp_thms)
qed

subsection \<open>Evaluating the definitions on sample inputs\<close>

lemmas eval_norm = normalize_def field_def isYes_def trim_def isSpace_def isDigit_def Let_def
  toLowerCase_def lowerChar_def char_of_def bit_Suc_0_iff

lemmas eval_re = isValidEmail_def EMAIL_RE_def ZIP_RE_def e164_def one_def notSpaceAt_def test.simps

subsection \<open>The phone number\<close>

text \<open>
  C9. The phone of the candidate is the trimmed field, empty when the field is absent or
  empty. An empty phone never gives InvalidPhone, and a submission that passes carries the phone
  as it is, so the empty string when there is none. The pattern of the handler accepts exactly
  the strings made of a \<open>+\<close>, a digit from 1 to 9 and then 9 to 14 digits from 0 to 9. When the
  four earlier checks pass, a non-empty phone gives InvalidPhone exactly when it is not such a
  string. "+18885551234" is one and "8885551234" is not.
\<close>

theorem phone_optional_e164:
  assumes c: "c = normalize b"
  shows "rawPhone c = trim (field b ''phone'') \<and>
    ((b ''phone'' = None \<or> b ''phone'' = Some []) \<longrightarrow> rawPhone c = []) \<and>
    (rawPhone c = [] \<longrightarrow> validate c \<noteq> Inl InvalidPhone) \<and>
    (\<forall>p. validate c = Inr p \<longrightarrow> p = rawPhone c) \<and>
    (publicUserName c \<noteq> [] \<and> publicUserEmail c \<noteq> [] \<and> projectText c \<noteq> [] \<and> zip c \<noteq> [] \<and>
     isValidEmail (publicUserEmail c) \<and> publicUserConcent c \<and> test ZIP_RE (zip c) \<and>
     rawPhone c \<noteq> [] \<longrightarrow>
       (validate c = Inl InvalidPhone \<longleftrightarrow> \<not> test e164 (rawPhone c)) \<and>
       (validate c = Inl InvalidPhone \<longleftrightarrow>
          \<not> (\<exists>d ds. rawPhone c = CHR ''+'' # d # ds \<and> d \<in> set ''123456789'' \<and>
                     set ds \<subseteq> set ''0123456789'' \<and> 9 \<le> length ds \<and> length ds \<le> 14))) \<and>
    (\<forall>p. test e164 p \<longleftrightarrow>
          (\<exists>d ds. p = CHR ''+'' # d # ds \<and> d \<in> set ''123456789'' \<and>
                  set ds \<subseteq> set ''0123456789'' \<and> 9 \<le> length ds \<and> length ds \<le> 14)) \<and>
    test e164 ''+18885551234'' \<and> \<not> test e164 ''8885551234''"
proof -
  have shape: "test e164 p \<longleftrightarrow>
          (\<exists>d ds. p = CHR ''+'' # d # ds \<and> d \<in> set ''123456789'' \<and>
                  set ds \<subseteq> set ''0123456789'' \<and> 9 \<le> length ds \<and> length ds \<le> 14)" for p
  proof -
    have digits: "list_all isDigit ds \<longleftrightarrow> set ds \<subseteq> set ''0123456789''" for ds
      unfolding list_all_iff isDigit_def by blast
    show ?thesis
      unfolding e164_iff by (simp add: digits split: list.splits)
  qed
  have 1: "rawPhone c = trim (field b ''phone'')"
    unfolding c by (simp add: normalize_def Let_def)
  have 2: "(b ''phone'' = None \<or> b ''phone'' = Some []) \<longrightarrow> rawPhone c = []"
    unfolding 1 by (auto simp: field_def trim_def)
  have 3: "rawPhone c = [] \<longrightarrow> validate c \<noteq> Inl InvalidPhone"
    by (simp add: validate_def)
  have 4: "\<forall>p. validate c = Inr p \<longrightarrow> p = rawPhone c"
    by (simp add: validate_def split: if_splits)
  have 5: "publicUserName c \<noteq> [] \<and> publicUserEmail c \<noteq> [] \<and> projectText c \<noteq> [] \<and> zip c \<noteq> [] \<and>
     isValidEmail (publicUserEmail c) \<and> publicUserConcent c \<and> test ZIP_RE (zip c) \<and>
     rawPhone c \<noteq> [] \<longrightarrow>
       (validate c = Inl InvalidPhone \<longleftrightarrow> \<not> test e164 (rawPhone c)) \<and>
       (validate c = Inl InvalidPhone \<longleftrightarrow>
          \<not> (\<exists>d ds. rawPhone c = CHR ''+'' # d # ds \<and> d \<in> set ''123456789'' \<and>
                     set ds \<subseteq> set ''0123456789'' \<and> 9 \<le> length ds \<and> length ds \<le> 14))"
    unfolding shape [symmetric] by (simp add: validate_def)
  have 6: "\<forall>p. test e164 p \<longleftrightarrow>
          (\<exists>d ds. p = CHR ''+'' # d # ds \<and> d \<in> set ''123456789'' \<and>
                  set ds \<subseteq> set ''0123456789'' \<and> 9 \<le> length ds \<and> length ds \<le> 14)"
    using shape by blast
  have 7: "test e164 ''+18885551234''" "\<not> test e164 ''8885551234''"
    by (simp_all add: e164_iff isDigit_def)
  from 1 2 3 4 5 6 7 show ?thesis by (intro conjI)
qed

theorem phone_optional_e164_witness:
  "validate (normalize body0) = Inr [] \<and>
   validate (normalize (body0(''phone'' \<mapsto> '' +18885551234''))) = Inr ''+18885551234'' \<and>
   validate (normalize (body0(''phone'' \<mapsto> ''8885551234''))) = Inl InvalidPhone \<and>
   validate (normalize (body0(''phone'' \<mapsto> ''+08885551234''))) = Inl InvalidPhone \<and>
   validate (normalize (body0(''phone'' \<mapsto> ''+1888555123''))) = Inr ''+1888555123'' \<and>
   validate (normalize (body0(''phone'' \<mapsto> ''+188855512''))) = Inl InvalidPhone \<and>
   validate (normalize (body0(''phone'' \<mapsto> ''+1888555123x''))) = Inl InvalidPhone"
proof -
  have pre: "publicUserName (normalize (body0(''phone'' \<mapsto> p))) \<noteq> [] \<and>
     publicUserEmail (normalize (body0(''phone'' \<mapsto> p))) \<noteq> [] \<and>
     projectText (normalize (body0(''phone'' \<mapsto> p))) \<noteq> [] \<and>
     zip (normalize (body0(''phone'' \<mapsto> p))) \<noteq> [] \<and>
     isValidEmail (publicUserEmail (normalize (body0(''phone'' \<mapsto> p)))) \<and>
     publicUserConcent (normalize (body0(''phone'' \<mapsto> p))) \<and>
     test ZIP_RE (zip (normalize (body0(''phone'' \<mapsto> p))))" for p
    by (simp add: body0_def eval_norm eval_re)
  have bad: "validate (normalize (body0(''phone'' \<mapsto> p))) = Inl InvalidPhone"
    if "rawPhone (normalize (body0(''phone'' \<mapsto> p))) = q" "q \<noteq> []"
      "\<not> (\<exists>d ds. q = CHR ''+'' # d # ds \<and> d \<in> set ''123456789'' \<and>
                 set ds \<subseteq> set ''0123456789'' \<and> 9 \<le> length ds \<and> length ds \<le> 14)" for p q
    using phone_optional_e164 [OF refl, of "body0(''phone'' \<mapsto> p)"] pre [of p] that by simp
  have 0: "validate (normalize body0) = Inr []"
    by (simp add: validate_def body0_def eval_norm eval_re)
  have 1: "validate (normalize (body0(''phone'' \<mapsto> '' +18885551234''))) = Inr ''+18885551234''"
    by (simp add: validate_def body0_def eval_norm eval_re)
  have 2: "validate (normalize (body0(''phone'' \<mapsto> ''8885551234''))) = Inl InvalidPhone"
    by (rule bad [of _ "''8885551234''"]) (simp_all add: body0_def eval_norm)
  have 3: "validate (normalize (body0(''phone'' \<mapsto> ''+08885551234''))) = Inl InvalidPhone"
    by (rule bad [of _ "''+08885551234''"]) (simp_all add: body0_def eval_norm)
  have 4: "validate (normalize (body0(''phone'' \<mapsto> ''+1888555123''))) = Inr ''+1888555123''"
    by (simp add: validate_def body0_def eval_norm eval_re)
  have 5: "validate (normalize (body0(''phone'' \<mapsto> ''+188855512''))) = Inl InvalidPhone"
    by (rule bad [of _ "''+188855512''"]) (simp_all add: body0_def eval_norm)
  have 6: "validate (normalize (body0(''phone'' \<mapsto> ''+1888555123x''))) = Inl InvalidPhone"
    by (rule bad [of _ "''+1888555123x''"]) (simp_all add: body0_def eval_norm)
  from 0 1 2 3 4 5 6 show ?thesis by (intro conjI)
qed

subsection \<open>The email address\<close>

lemma dropWhile_keeps: "\<not> P y \<Longrightarrow> Suc (length ys) \<le> length (dropWhile P (xs @ y # ys))"
  by (induction xs) auto

lemma valid_email_has_at: "isValidEmail e \<Longrightarrow> CHR ''@'' \<in> set e"
  unfolding email_iff by auto

lemma valid_email_domain:
  assumes "isValidEmail e"
  shows "\<exists>b c. domainPart e = b @ CHR ''.'' # c \<and> b \<noteq> [] \<and> 2 \<le> length c"
proof -
  from assms obtain a b c where e: "e = a @ CHR ''@'' # b @ CHR ''.'' # c" "b \<noteq> []"
      "2 \<le> length c" "list_all notSpaceAt a"
    unfolding email_iff by blast
  have "\<And>x. x \<in> set a \<Longrightarrow> x \<noteq> CHR ''@''"
    using e(4) by (auto simp: list_all_iff notSpaceAt_def)
  then have "dropWhile (\<lambda>c. c \<noteq> CHR ''@'') e = CHR ''@'' # b @ CHR ''.'' # c"
    unfolding e(1) by (simp add: dropWhile_append2)
  then have "domainPart e = b @ CHR ''.'' # c"
    by (simp add: domainPart_def)
  with e show ?thesis by blast
qed

lemma valid_email_dot: "isValidEmail e \<Longrightarrow> CHR ''.'' \<in> set (domainPart e)"
  using valid_email_domain [of e] by auto

lemma valid_email_after_dot:
  assumes "isValidEmail e"
  shows "2 \<le> length (afterFirstDot (domainPart e))"
proof -
  from valid_email_domain [OF assms] obtain b c where
    d: "domainPart e = b @ CHR ''.'' # c" "2 \<le> length c" by blast
  have "Suc (length c) \<le> length (dropWhile (\<lambda>c. c \<noteq> CHR ''.'') (b @ CHR ''.'' # c))"
    by (rule dropWhile_keeps) simp
  then show ?thesis
    using d(2) unfolding afterFirstDot_def d(1) by simp
qed

text \<open>
  C3 (amended). Take a submission whose name, project text and ZIP code are not empty and whose
  email, trimmed and lower-cased, is not empty. It is answered InvalidEmail exactly when the
  pattern does not accept that email. This is so whenever the email has no \<open>@\<close>, has no dot
  after its first \<open>@\<close>, or has fewer than 2 characters after the first dot of that domain part.
\<close>

theorem email_check:
  assumes c: "c = normalize b"
    and complete: "publicUserName c \<noteq> []" "projectText c \<noteq> []" "zip c \<noteq> []"
    and present: "publicUserEmail c \<noteq> []"
  shows "publicUserEmail c = toLowerCase (trim (field b ''email'')) \<and>
    (validate c = Inl InvalidEmail \<longleftrightarrow> \<not> test EMAIL_RE (publicUserEmail c)) \<and>
    (CHR ''@'' \<notin> set (publicUserEmail c) \<longrightarrow> validate c = Inl InvalidEmail) \<and>
    (CHR ''.'' \<notin> set (domainPart (publicUserEmail c)) \<longrightarrow> validate c = Inl InvalidEmail) \<and>
    (length (afterFirstDot (domainPart (publicUserEmail c))) < 2 \<longrightarrow> validate c = Inl InvalidEmail)"
proof -
  have 1: "publicUserEmail c = toLowerCase (trim (field b ''email''))"
    unfolding c by (simp add: normalize_def Let_def)
  have 2: "validate c = Inl InvalidEmail \<longleftrightarrow> \<not> isValidEmail (publicUserEmail c)"
    using complete present by (simp add: validate_def)
  have 3: "CHR ''@'' \<notin> set (publicUserEmail c) \<longrightarrow> validate c = Inl InvalidEmail"
    unfolding 2 using valid_email_has_at by blast
  have 4: "CHR ''.'' \<notin> set (domainPart (publicUserEmail c)) \<longrightarrow> validate c = Inl InvalidEmail"
    unfolding 2 using valid_email_dot by blast
  have 5: "length (afterFirstDot (domainPart (publicUserEmail c))) < 2 \<longrightarrow>
           validate c = Inl InvalidEmail"
    unfolding 2 using valid_email_after_dot [of "publicUserEmail c"] by auto
  from 1 2 3 4 5 show ?thesis unfolding isValidEmail_def by (intro conjI)
qed

theorem email_check_witness:
  "publicUserEmail (normalize (body0(''email'' \<mapsto> '' Ann@Mail.c ''))) = ''ann@mail.c'' \<and>
   length (afterFirstDot (domainPart ''ann@mail.c'')) < 2 \<and>
   validate (normalize (body0(''email'' \<mapsto> '' Ann@Mail.c ''))) = Inl InvalidEmail"
proof -
  let ?b = "body0(''email'' \<mapsto> '' Ann@Mail.c '')"
  have e: "publicUserEmail (normalize ?b) = ''ann@mail.c''"
    by (simp add: body0_def eval_norm)
  have pre: "publicUserName (normalize ?b) \<noteq> []" "projectText (normalize ?b) \<noteq> []"
      "zip (normalize ?b) \<noteq> []" "publicUserEmail (normalize ?b) \<noteq> []"
    by (simp_all add: body0_def eval_norm)
  have short: "length (afterFirstDot (domainPart ''ann@mail.c'')) < 2"
    by (simp add: afterFirstDot_def domainPart_def)
  have "validate (normalize ?b) = Inl InvalidEmail"
    using email_check [OF refl pre] short unfolding e by blast
  with e short show ?thesis by (intro conjI)
qed

text \<open>
  The claim as it was stated fails: "a@b.cd.e" has one character after its final dot and is
  accepted, the pattern reading "cd.e" as the last block; and an empty email, which has no \<open>@\<close>,
  is answered MissingRequired.
\<close>

theorem email_final_dot_counterexample:
  "publicUserEmail (normalize (body0(''email'' \<mapsto> ''a@b.cd.e''))) = ''a@b.cd.e'' \<and>
   afterFinalDot ''a@b.cd.e'' = ''e'' \<and>
   test EMAIL_RE ''a@b.cd.e'' \<and>
   validate (normalize (body0(''email'' \<mapsto> ''a@b.cd.e''))) = Inr [] \<and>
   validate (normalize (body0(''email'' \<mapsto> []))) = Inl MissingRequired"
  by (simp add: afterFinalDot_def validate_def body0_def eval_norm eval_re)

subsection \<open>The budget\<close>






subsection \<open>The normalizer\<close>

lemma trimmed_trim: "trimmed s (trim s)"
proof -
  define s' where "s' = dropWhile isSpace s"
  define l where "l = takeWhile isSpace s"
  define r where "r = rev (takeWhile isSpace (rev s'))"
  have t: "trim s = rev (dropWhile isSpace (rev s'))"
    by (simp add: trim_def s'_def)
  have "s' = rev (takeWhile isSpace (rev s') @ dropWhile isSpace (rev s'))"
    by (simp only: takeWhile_dropWhile_id rev_rev_ident)
  then have s': "s' = trim s @ r"
    unfolding t r_def by (simp only: rev_append)
  have "s = l @ s'"
    by (simp add: l_def s'_def)
  then have split: "s = l @ trim s @ r"
    using s' by simp
  have l: "list_all isSpace l"
    unfolding l_def list_all_iff by (auto dest: set_takeWhileD)
  have r: "list_all isSpace r"
    unfolding r_def list_all_iff by (auto dest: set_takeWhileD)
  have ends: "\<not> isSpace (hd (trim s)) \<and> \<not> isSpace (last (trim s))" if ne: "trim s \<noteq> []"
  proof -
    from ne have d: "dropWhile isSpace (rev s') \<noteq> []"
      unfolding t by simp
    then have "rev s' \<noteq> []" by auto
    then have s'ne: "s' \<noteq> []" by simp
    have "last (trim s) = hd (dropWhile isSpace (rev s'))"
      unfolding t using d by (simp add: last_rev)
    then have la: "\<not> isSpace (last (trim s))"
      using hd_dropWhile [OF d] by simp
    have "hd (trim s) = last (dropWhile isSpace (rev s'))"
      unfolding t using d by (simp add: hd_rev)
    also have "\<dots> = last (rev s')"
      using d by (metis takeWhile_dropWhile_id last_appendR)
    also have "\<dots> = hd s'"
      using s'ne by (simp add: last_rev)
    finally have "hd (trim s) = hd (dropWhile isSpace s)"
      by (simp add: s'_def)
    moreover have "\<not> isSpace (hd (dropWhile isSpace s))"
      using s'ne unfolding s'_def by (rule hd_dropWhile)
    ultimately show ?thesis using la by simp
  qed
  show ?thesis
    unfolding trimmed_def using split l r ends by blast
qed

lemma field_absent: "field b k = (case b k of None \<Rightarrow> [] | Some v \<Rightarrow> v)"
  by (simp add: field_def split: option.splits)

lemma lowerChar_not_upper: "\<not> isUpperAscii (lowerChar c)"
  by (auto simp: isUpperAscii_def lowerChar_def Let_def)

text \<open>
  C10. The normalizer is a total function: no input makes it fail. Each text field of its
  result is the posted string, or the empty string when the field is absent, without its leading
  and trailing white space; the email is that, lower-cased, of the same length and with no
  capital letter A-Z left; and each of \<open>readyToHire\<close>, \<open>urgent\<close> and the consent is true exactly
  when the posted value is the string "yes".
\<close>

theorem normalize_shape:
  assumes c: "c = normalize b"
  shows "trimmed (case b ''name'' of None \<Rightarrow> [] | Some v \<Rightarrow> v) (publicUserName c) \<and>
    trimmed (case b ''phone'' of None \<Rightarrow> [] | Some v \<Rightarrow> v) (rawPhone c) \<and>
    trimmed (case b ''project'' of None \<Rightarrow> [] | Some v \<Rightarrow> v) (projectText c) \<and>
    trimmed (case b ''zip'' of None \<Rightarrow> [] | Some v \<Rightarrow> v) (zip c) \<and>
    trimmed (case b ''budgetText'' of None \<Rightarrow> [] | Some v \<Rightarrow> v) (rawBudget c) \<and>
    (\<exists>e. trimmed (case b ''email'' of None \<Rightarrow> [] | Some v \<Rightarrow> v) e \<and>
         publicUserEmail c = toLowerCase e \<and> length (publicUserEmail c) = length e \<and>
         list_all (\<lambda>x. \<not> isUpperAscii x) (publicUserEmail c)) \<and>
    (readyToHire c \<longleftrightarrow> b ''readyToHire'' = Some ''yes'') \<and>
    (urgent c \<longleftrightarrow> b ''urgent'' = Some ''yes'') \<and>
    (publicUserConcent c \<longleftrightarrow> b ''concent'' = Some ''yes'')"
proof -
  have t: "\<And>k. trimmed (case b k of None \<Rightarrow> [] | Some v \<Rightarrow> v) (trim (field b k))"
    using trimmed_trim by (simp add: field_absent)
  have e: "\<exists>e. trimmed (case b ''email'' of None \<Rightarrow> [] | Some v \<Rightarrow> v) e \<and>
         publicUserEmail c = toLowerCase e \<and> length (publicUserEmail c) = length e \<and>
         list_all (\<lambda>x. \<not> isUpperAscii x) (publicUserEmail c)"
    unfolding c
    by (rule exI[of _ "trim (field b ''email'')"])
       (simp add: normalize_def Let_def t toLowerCase_def list_all_iff lowerChar_not_upper)
  show ?thesis
    using e unfolding c by (simp add: normalize_def Let_def t isYes_def)
qed

theorem normalize_shape_witness:
  "trimmed '' Ann '' ''Ann'' \<and>
   publicUserEmail (normalize body0) = ''a@b.co'' \<and>
   publicUserConcent (normalize body0) \<and> \<not> urgent (normalize body0) \<and>
   \<not> readyToHire (normalize (body0(''readyToHire'' \<mapsto> ''Yes'')))"
proof -
  have n: "publicUserName (normalize body0) = ''Ann''" "body0 ''name'' = Some '' Ann ''"
    by (simp_all add: body0_def eval_norm)
  have 1: "trimmed '' Ann '' ''Ann''"
    using normalize_shape [OF refl, of body0, THEN conjunct1] unfolding n by simp
  have 2: "publicUserEmail (normalize body0) = ''a@b.co''"
    "publicUserConcent (normalize body0)" "\<not> urgent (normalize body0)"
    "\<not> readyToHire (normalize (body0(''readyToHire'' \<mapsto> ''Yes'')))"
    by (simp_all add: body0_def eval_norm)
  from 1 2 show ?thesis by (intro conjI)
qed

subsection \<open>The redirect resolver\<close>

lemma includesStr_sublist: "includesStr s t \<longleftrightarrow> sublist t s"
  by (induction s) (simp_all add: sublist_Cons_right)

lemma hasToken_includesStr: "hasToken ua t \<longleftrightarrow> includesStr (toLowerCase ua) t"
  by (simp add: hasToken_def includesStr_sublist sublist_def)

lemma isInApp_tokens: "isInApp (toLowerCase ua) \<longleftrightarrow> (\<exists>t \<in> set inAppTokens. hasToken ua t)"
  by (simp add: isInApp_def inAppTokens_def hasToken_includesStr)

lemmas eval_uri = encodeURIComponent_def encodeChar_def uriUnreserved_def pct_def hexDigit_def Let_def

lemma AND_HTTPS_eq:
  "AND_HTTPS = ''https://play.google.com/store/apps/details?id=com.hoyalist.hoyalist''"
  by (simp add: AND_HTTPS_def PKG_def)

lemma AND_INTENT_eq:
  "AND_INTENT = ''intent://details?id=com.hoyalist.hoyalist#Intent;scheme=market;package=com.android.vending;S.browser_fallback_url=https%3A%2F%2Fplay.google.com%2Fstore%2Fapps%2Fdetails%3Fid%3Dcom.hoyalist.hoyalist;end;''"
  by (simp add: AND_INTENT_def AND_HTTPS_def PKG_def eval_uri)

text \<open>
  C6. The target of \<open>GET /go\<close> is a function of the user agent alone (and of the file of the
  server, for the fallback). A user agent with the token "android" is sent to the Play Store:
  to its HTTPS page when an in-app token is present, to the store intent otherwise. Failing that,
  one with "iphone", "ipad" or "ipod" is sent to the App Store: to its HTTPS page when an in-app
  token is present, to the \<open>itms-apps\<close> link otherwise. Any other user agent is sent to the
  fallback.
\<close>

theorem go_resolver:
  "go v h =
     (let ua = (case h of None \<Rightarrow> [] | Some x \<Rightarrow> x);
          inApp = (\<exists>t \<in> set inAppTokens. hasToken ua t)
      in if hasToken ua ''android''
         then (302, if inApp
                    then ''https://play.google.com/store/apps/details?id=com.hoyalist.hoyalist''
                    else ''intent://details?id=com.hoyalist.hoyalist#Intent;scheme=market;package=com.android.vending;S.browser_fallback_url=https%3A%2F%2Fplay.google.com%2Fstore%2Fapps%2Fdetails%3Fid%3Dcom.hoyalist.hoyalist;end;'')
         else if hasToken ua ''iphone'' \<or> hasToken ua ''ipad'' \<or> hasToken ua ''ipod''
         then (302, if inApp
                    then ''https://apps.apple.com/us/app/hoyalist/id6740706168''
                    else ''itms-apps://itunes.apple.com/app/id6740706168'')
         else (302, FALLBACK v)) \<and>
   ''fban'' \<in> set inAppTokens \<and>
   FALLBACK ServerJs = ''/homeowners'' \<and> FALLBACK Other = ''https://hoyalistapp.com''"
proof -
  have ua: "(case h of None \<Rightarrow> [] | Some x \<Rightarrow> if x = [] then [] else x) =
            (case h of None \<Rightarrow> [] | Some x \<Rightarrow> x)"
    by (simp split: option.splits)
  show ?thesis
    unfolding go_def Let_def ua isInApp_tokens AND_HTTPS_eq AND_INTENT_eq
    by (simp add: hasToken_includesStr IOS_HTTPS_def IOS_ITMS_def inAppTokens_def)
qed

theorem go_resolver_witness:
  "go ServerJs (Some uaAndroid) = (302, AND_INTENT) \<and>
   go ServerJs (Some uaAndroidFacebook) = (302, AND_HTTPS) \<and>
   go ServerJs (Some uaIPhone) = (302, IOS_ITMS) \<and>
   go ServerJs (Some uaIPhoneInstagram) = (302, IOS_HTTPS) \<and>
   go ServerJs (Some uaDesktop) = (302, ''/homeowners'') \<and>
   go Other None = (302, ''https://hoyalistapp.com'')"
proof -
  note ev = hasToken_includesStr inAppTokens_def toLowerCase_def lowerChar_def char_of_def
    bit_Suc_0_iff Let_def AND_HTTPS_eq AND_INTENT_eq IOS_HTTPS_def IOS_ITMS_def
  have 1: "go ServerJs (Some uaAndroid) = (302, AND_INTENT)"
    by (subst go_resolver [THEN conjunct1]) (simp add: uaAndroid_def ev)
  have 2: "go ServerJs (Some uaAndroidFacebook) = (302, AND_HTTPS)"
    by (subst go_resolver [THEN conjunct1]) (simp add: uaAndroidFacebook_def ev)
  have 3: "go ServerJs (Some uaIPhone) = (302, IOS_ITMS)"
    by (subst go_resolver [THEN conjunct1]) (simp add: uaIPhone_def ev)
  have 4: "go ServerJs (Some uaIPhoneInstagram) = (302, IOS_HTTPS)"
    by (subst go_resolver [THEN conjunct1]) (simp add: uaIPhoneInstagram_def ev)
  have 5: "go ServerJs (Some uaDesktop) = (302, ''/homeowners'')"
    by (subst go_resolver [THEN conjunct1]) (simp add: uaDesktop_def ev)
  have 6: "go Other None = (302, ''https://hoyalistapp.com'')"
    by (subst go_resolver [THEN conjunct1]) (simp add: ev)
  from 1 2 3 4 5 6 show ?thesis by (intro conjI)
qed

subsection \<open>The failures of the geocoder\<close>

lemma readGeo_failed:
  "status data \<noteq> ''OK'' \<or> results data = None \<or> results data = Some [] \<Longrightarrow>
   readGeo data = Inl (GeocodingFailed (status data))"
  by (auto simp: readGeo_def split: option.splits list.splits)

lemma readGeo_invalid:
  assumes "status data = ''OK''" "results data = Some (r # rs)"
    and "\<not> (\<exists>la lo. latOf (locOf r) = JNum la \<and> lngOf (locOf r) = JNum lo)"
  shows "readGeo data = Inl InvalidLatLng"
  using assms by (auto simp: readGeo_def split: jsval.splits)

lemma readGeo_Inr:
  assumes "readGeo data = Inr g"
  shows "status data = ''OK'' \<and>
    (\<exists>r rs. results data = Some (r # rs) \<and>
        latOf (locOf r) = JNum (latitude g) \<and> lngOf (locOf r) = JNum (longitude g))"
  using assms
  by (auto simp: readGeo_def Let_def split: option.splits list.splits if_splits jsval.splits
      prod.splits)

lemma geocode_Inr:
  assumes "fst (geocodeZipWithGoogle w z) = Inr g"
  shows "\<exists>key code data. GOOGLE_GEOCODING_API_KEY w = Some key \<and> key \<noteq> [] \<and>
      fetch w (geocodeUrl key z) = Response code (Some data) \<and> 200 \<le> code \<and> code \<le> 299 \<and>
      readGeo data = Inr g \<and> snd (geocodeZipWithGoogle w z) = [geocodeUrl key z]"
  using assms
  by (auto simp: geocodeZipWithGoogle_def Let_def split: option.splits if_splits fetched.splits)

lemma geocode_response:
  assumes "GOOGLE_GEOCODING_API_KEY w = Some key" "key \<noteq> []"
    and "fetch w (geocodeUrl key z) = Response code body"
  shows "geocodeZipWithGoogle w z =
    (if \<not> (200 \<le> code \<and> code \<le> 299) then Inl (HttpError code)
     else (case body of None \<Rightarrow> Inl JsonRejected | Some data \<Rightarrow> readGeo data),
     [geocodeUrl key z])"
  using assms by (simp add: geocodeZipWithGoogle_def Let_def)

text \<open>
  C5. Without a key, unset or empty, the geocoder fails with its error of configuration and no
  request is sent. With a key, an answer whose status code is outside 200-299 fails with the
  error that carries that code; an answer whose status is not "OK", or that has no result,
  fails with the error that carries the status; an answer whose first result has a latitude or
  a longitude that is not a number fails with the error of data. When the geocoder succeeds,
  the latitude and the longitude are the numbers of the first result. The messages of the four
  errors are distinct, whatever the code and the status.
\<close>

theorem geocoder_failures:
  "((GOOGLE_GEOCODING_API_KEY w = None \<or> GOOGLE_GEOCODING_API_KEY w = Some []) \<longrightarrow>
      geocodeZipWithGoogle w z = (Inl MissingKey, [])) \<and>
   (\<forall>key code body.
      GOOGLE_GEOCODING_API_KEY w = Some key \<and> key \<noteq> [] \<and>
      fetch w (geocodeUrl key z) = Response code body \<and> (code < 200 \<or> 299 < code) \<longrightarrow>
      geocodeZipWithGoogle w z = (Inl (HttpError code), [geocodeUrl key z])) \<and>
   (\<forall>key code data.
      GOOGLE_GEOCODING_API_KEY w = Some key \<and> key \<noteq> [] \<and>
      fetch w (geocodeUrl key z) = Response code (Some data) \<and> 200 \<le> code \<and> code \<le> 299 \<and>
      (status data \<noteq> ''OK'' \<or> results data = None \<or> results data = Some []) \<longrightarrow>
      geocodeZipWithGoogle w z = (Inl (GeocodingFailed (status data)), [geocodeUrl key z])) \<and>
   (\<forall>key code data r rs.
      GOOGLE_GEOCODING_API_KEY w = Some key \<and> key \<noteq> [] \<and>
      fetch w (geocodeUrl key z) = Response code (Some data) \<and> 200 \<le> code \<and> code \<le> 299 \<and>
      status data = ''OK'' \<and> results data = Some (r # rs) \<and>
      \<not> (\<exists>la lo. latOf (locOf r) = JNum la \<and> lngOf (locOf r) = JNum lo) \<longrightarrow>
      geocodeZipWithGoogle w z = (Inl InvalidLatLng, [geocodeUrl key z])) \<and>
   (\<forall>g. fst (geocodeZipWithGoogle w z) = Inr g \<longrightarrow>
      (\<exists>key code data r rs.
         fetch w (geocodeUrl key z) = Response code (Some data) \<and>
         results data = Some (r # rs) \<and>
         latOf (locOf r) = JNum (latitude g) \<and> lngOf (locOf r) = JNum (longitude g))) \<and>
   (\<forall>code st.
      distinct [errorMessage MissingKey, errorMessage (HttpError code),
                errorMessage (GeocodingFailed st), errorMessage InvalidLatLng] \<and>
      errorMessage (HttpError code) = Some (''Google Geocoding HTTP error: '' @ showNat code) \<and>
      errorMessage (GeocodingFailed st) = Some (''Google Geocoding failed: '' @ st))"
proof -
  have 1: "(GOOGLE_GEOCODING_API_KEY w = None \<or> GOOGLE_GEOCODING_API_KEY w = Some []) \<longrightarrow>
      geocodeZipWithGoogle w z = (Inl MissingKey, [])"
    by (auto simp: geocodeZipWithGoogle_def)
  have 2: "\<forall>key code body.
      GOOGLE_GEOCODING_API_KEY w = Some key \<and> key \<noteq> [] \<and>
      fetch w (geocodeUrl key z) = Response code body \<and> (code < 200 \<or> 299 < code) \<longrightarrow>
      geocodeZipWithGoogle w z = (Inl (HttpError code), [geocodeUrl key z])"
    by (auto simp: geocode_response)
  have 3: "\<forall>key code data.
      GOOGLE_GEOCODING_API_KEY w = Some key \<and> key \<noteq> [] \<and>
      fetch w (geocodeUrl key z) = Response code (Some data) \<and> 200 \<le> code \<and> code \<le> 299 \<and>
      (status data \<noteq> ''OK'' \<or> results data = None \<or> results data = Some []) \<longrightarrow>
      geocodeZipWithGoogle w z = (Inl (GeocodingFailed (status data)), [geocodeUrl key z])"
    by (auto simp: geocode_response readGeo_failed)
  have 4: "\<forall>key code data r rs.
      GOOGLE_GEOCODING_API_KEY w = Some key \<and> key \<noteq> [] \<and>
      fetch w (geocodeUrl key z) = Response code (Some data) \<and> 200 \<le> code \<and> code \<le> 299 \<and>
      status data = ''OK'' \<and> results data = Some (r # rs) \<and>
      \<not> (\<exists>la lo. latOf (locOf r) = JNum la \<and> lngOf (locOf r) = JNum lo) \<longrightarrow>
      geocodeZipWithGoogle w z = (Inl InvalidLatLng, [geocodeUrl key z])"
    by (intro allI impI) (simp add: geocode_response readGeo_invalid)
  have 5: "\<forall>g. fst (geocodeZipWithGoogle w z) = Inr g \<longrightarrow>
      (\<exists>key code data r rs.
         fetch w (geocodeUrl key z) = Response code (Some data) \<and>
         results data = Some (r # rs) \<and>
         latOf (locOf r) = JNum (latitude g) \<and> lngOf (locOf r) = JNum (longitude g))"
  proof (intro allI impI)
    fix g assume "fst (geocodeZipWithGoogle w z) = Inr g"
    from geocode_Inr [OF this] obtain key code data where
      f: "fetch w (geocodeUrl key z) = Response code (Some data)" and r: "readGeo data = Inr g"
      by blast
    from readGeo_Inr [OF r] f show "\<exists>key code data r rs.
         fetch w (geocodeUrl key z) = Response code (Some data) \<and>
         results data = Some (r # rs) \<and>
         latOf (locOf r) = JNum (latitude g) \<and> lngOf (locOf r) = JNum (longitude g)"
      by blast
  qed
  have 6: "\<forall>code st.
      distinct [errorMessage MissingKey, errorMessage (HttpError code),
                errorMessage (GeocodingFailed st), errorMessage InvalidLatLng] \<and>
      errorMessage (HttpError code) = Some (''Google Geocoding HTTP error: '' @ showNat code) \<and>
      errorMessage (GeocodingFailed st) = Some (''Google Geocoding failed: '' @ st)"
    by simp
  from 1 2 3 4 5 6 show ?thesis by (intro conjI)
qed

theorem geocoder_failures_witness:
  "geocodeZipWithGoogle ((world0 Rejected)\<lparr> GOOGLE_GEOCODING_API_KEY := None \<rparr>) ''06119''
     = (Inl MissingKey, []) \<and>
   fst (geocodeZipWithGoogle (world0 (Response 403 None)) ''06119'') = Inl (HttpError 403) \<and>
   fst (geocodeZipWithGoogle
          (world0 (Response 200 (Some \<lparr> status = ''ZERO_RESULTS'', results = Some [] \<rparr>))) ''06119'')
     = Inl (GeocodingFailed ''ZERO_RESULTS'') \<and>
   fst (geocodeZipWithGoogle
          (world0 (Response 200 (Some \<lparr> status = ''OK'', results = Some
             [\<lparr> geometry = geometryAt (JStr ''41.76'') JNull, address_components = None \<rparr>] \<rparr>))) ''06119'')
     = Inl InvalidLatLng \<and>
   fst (geocodeZipWithGoogle (world0 (Response 200 (Some data0))) ''06119'')
     = Inr \<lparr> latitude = Num 41.76, longitude = Num (- 72.73),
             userTown = ''West Hartford'', userState = ''CT'' \<rparr> \<and>
   errorMessage (HttpError 403) = Some ''Google Geocoding HTTP error: 403''"
proof -
  have url: "geocodeUrl ''KEY'' ''06119'' =
      ''https://maps.googleapis.com/maps/api/geocode/json?address=06119%2C%20USA&key=KEY''"
    by (simp add: geocodeUrl_def eval_uri)
  have 1: "geocodeZipWithGoogle ((world0 Rejected)\<lparr> GOOGLE_GEOCODING_API_KEY := None \<rparr>) ''06119''
     = (Inl MissingKey, [])"
    using geocoder_failures [of "(world0 Rejected)\<lparr> GOOGLE_GEOCODING_API_KEY := None \<rparr>" "''06119''",
        THEN conjunct1]
    by (simp add: world0_def)
  have 2: "fst (geocodeZipWithGoogle (world0 (Response 403 None)) ''06119'') = Inl (HttpError 403)"
    using geocoder_failures [of "world0 (Response 403 None)" "''06119''",
        THEN conjunct2, THEN conjunct1, rule_format, of "''KEY''" 403 None]
    by (simp add: world0_def)
  let ?none = "\<lparr> status = ''ZERO_RESULTS'', results = Some [] \<rparr>"
  have 3: "fst (geocodeZipWithGoogle (world0 (Response 200 (Some ?none))) ''06119'')
     = Inl (GeocodingFailed ''ZERO_RESULTS'')"
    using geocoder_failures [of "world0 (Response 200 (Some ?none))" "''06119''",
        THEN conjunct2, THEN conjunct2, THEN conjunct1, rule_format, of "''KEY''" 200 ?none]
    by (simp add: world0_def)
  let ?r = "\<lparr> geometry = geometryAt (JStr ''41.76'') JNull, address_components = None \<rparr>"
  let ?bad = "\<lparr> status = ''OK'', results = Some [?r] \<rparr>"
  have 4: "fst (geocodeZipWithGoogle (world0 (Response 200 (Some ?bad))) ''06119'')
     = Inl InvalidLatLng"
    using geocoder_failures [of "world0 (Response 200 (Some ?bad))" "''06119''",
        THEN conjunct2, THEN conjunct2, THEN conjunct2, THEN conjunct1, rule_format,
        of "''KEY''" 200 ?bad ?r "[]"]
    by (simp add: world0_def geometryAt_def locOf_def latOf_def lngOf_def)
  have 5: "fst (geocodeZipWithGoogle (world0 (Response 200 (Some data0))) ''06119'')
     = Inr \<lparr> latitude = Num 41.76, longitude = Num (- 72.73),
             userTown = ''West Hartford'', userState = ''CT'' \<rparr>"
    by (simp add: world0_def geocodeZipWithGoogle_def url readGeo_def data0_def geometryAt_def locOf_def
        latOf_def lngOf_def componentsOf_def component_def firstLoop_def secondLoop_def typesOf_def)
  have 6: "errorMessage (HttpError 403) = Some ''Google Geocoding HTTP error: 403''"
    by (simp add: showNat.simps [of 403] showNat.simps [of 40] showNat.simps [of 4] digitChar_def)
  from 1 2 3 4 5 6 show ?thesis by (intro conjI)
qed

subsection \<open>The town and the state\<close>

lemma lastTyped_snoc:
  "lastTyped t (cs @ [c]) = (if typed t c then Some c else lastTyped t cs)"
  by (simp add: lastTyped_def)

lemma firstLoop_fold:
  "foldl firstLoop (t0, s0) cs =
     (case lastTyped ''locality'' cs of None \<Rightarrow> t0 | Some c \<Rightarrow> long_name c,
      case lastTyped ''administrative_area_level_1'' cs of None \<Rightarrow> s0 | Some c \<Rightarrow> short_name c)"
proof (induction cs rule: rev_induct)
  case Nil
  show ?case by (simp add: lastTyped_def)
next
  case (snoc c cs)
  have "foldl firstLoop (t0, s0) (cs @ [c]) = firstLoop (foldl firstLoop (t0, s0) cs) c"
    by simp
  also have "\<dots> = firstLoop
     (case lastTyped ''locality'' cs of None \<Rightarrow> t0 | Some c \<Rightarrow> long_name c,
      case lastTyped ''administrative_area_level_1'' cs of None \<Rightarrow> s0 | Some c \<Rightarrow> short_name c) c"
    by (simp only: snoc.IH)
  also have "\<dots> =
     (case lastTyped ''locality'' (cs @ [c]) of None \<Rightarrow> t0 | Some c \<Rightarrow> long_name c,
      case lastTyped ''administrative_area_level_1'' (cs @ [c]) of
        None \<Rightarrow> s0 | Some c \<Rightarrow> short_name c)"
    by (simp add: firstLoop_def Let_def lastTyped_snoc typed_def)
  finally show ?case .
qed

lemma secondLoop_fold:
  "foldl secondLoop t0 cs =
     (case lastTyped ''postal_town'' cs of None \<Rightarrow> t0 | Some c \<Rightarrow> long_name c)"
proof (induction cs rule: rev_induct)
  case Nil
  show ?case by (simp add: lastTyped_def)
next
  case (snoc c cs)
  have "foldl secondLoop t0 (cs @ [c]) = secondLoop (foldl secondLoop t0 cs) c"
    by simp
  also have "\<dots> = secondLoop
     (case lastTyped ''postal_town'' cs of None \<Rightarrow> t0 | Some c \<Rightarrow> long_name c) c"
    by (simp only: snoc.IH)
  also have "\<dots> =
     (case lastTyped ''postal_town'' (cs @ [c]) of None \<Rightarrow> t0 | Some c \<Rightarrow> long_name c)"
    by (simp add: secondLoop_def lastTyped_snoc typed_def)
  finally show ?case .
qed

text \<open>
  C8 (amended). When the status is "OK" and the first result has a numeric latitude and
  longitude, the lookup succeeds, whatever the address components are. The state is the short
  name of the last component of type \<open>administrative_area_level_1\<close>, and the empty string when
  there is none. The town is the long name of the last component of type \<open>locality\<close> when there
  is one and that name is not empty; when there is none, or its name is empty, the town is the
  long name of the last component of type \<open>postal_town\<close>, and the empty string when there is
  none.
\<close>

theorem town_and_state:
  assumes "status data = ''OK''" and "results data = Some (r # rs)"
    and "latOf (locOf r) = JNum la" and "lngOf (locOf r) = JNum lo"
  shows "\<exists>g. readGeo data = Inr g \<and> latitude g = la \<and> longitude g = lo \<and>
    userState g =
      (case lastTyped ''administrative_area_level_1'' (componentsOf r) of
         None \<Rightarrow> [] | Some c \<Rightarrow> short_name c) \<and>
    userTown g =
      (let fallback = (case lastTyped ''postal_town'' (componentsOf r) of
                         None \<Rightarrow> [] | Some c \<Rightarrow> long_name c)
       in case lastTyped ''locality'' (componentsOf r) of
            None \<Rightarrow> fallback
          | Some c \<Rightarrow> if long_name c \<noteq> [] then long_name c else fallback)"
  using assms
  by (simp add: readGeo_def firstLoop_fold secondLoop_fold Let_def split: option.splits)

theorem town_and_state_witness:
  "readGeo data0 = Inr \<lparr> latitude = Num 41.76, longitude = Num (- 72.73),
                          userTown = ''West Hartford'', userState = ''CT'' \<rparr> \<and>
   lastTyped ''locality'' (componentsOf (hd (the (results data0)))) =
     Some (component ''West Hartford'' ''West Hartford'' [''locality'', ''political''])"
proof -
  let ?r = "\<lparr> geometry = geometryAt (JNum (Num 41.76)) (JNum (Num (- 72.73))),
               address_components = Some
                 [component ''06119'' ''06119'' [''postal_code''],
                  component ''West Hartford'' ''West Hartford'' [''locality'', ''political''],
                  component ''Connecticut'' ''CT'' [''administrative_area_level_1'', ''political''],
                  component ''United States'' ''US'' [''country'', ''political'']] \<rparr>"
  note ev = componentsOf_def component_def lastTyped_def typed_def typesOf_def
  have a: "status data0 = ''OK''" "results data0 = Some (?r # [])"
    "latOf (locOf ?r) = JNum (Num 41.76)" "lngOf (locOf ?r) = JNum (Num (- 72.73))"
    by (simp_all add: data0_def geometryAt_def locOf_def latOf_def lngOf_def)
  have l: "lastTyped ''locality'' (componentsOf ?r) =
      Some (component ''West Hartford'' ''West Hartford'' [''locality'', ''political''])"
    "lastTyped ''postal_town'' (componentsOf ?r) = None"
    "lastTyped ''administrative_area_level_1'' (componentsOf ?r) =
      Some (component ''Connecticut'' ''CT'' [''administrative_area_level_1'', ''political''])"
    by (simp_all add: ev)
  from town_and_state [OF a] obtain g where g: "readGeo data0 = Inr g"
    "latitude g = Num 41.76" "longitude g = Num (- 72.73)"
    "userState g = ''CT''" "userTown g = ''West Hartford''"
    unfolding l by (auto simp: component_def)
  have "g = \<lparr> latitude = Num 41.76, longitude = Num (- 72.73),
              userTown = ''West Hartford'', userState = ''CT'' \<rparr>"
    using g(2-5) by (cases g) simp
  with g(1) l(1) show ?thesis
    by (simp add: data0_def)
qed

text \<open>
  The claim as it was stated fails when the component of type \<open>locality\<close> has an empty name:
  the town then comes from the component of type \<open>postal_town\<close>, although a component of type
  \<open>locality\<close> exists.
\<close>

theorem town_empty_locality_counterexample:
  "readGeo dataEmptyLocality =
     Inr \<lparr> latitude = Num 51.38, longitude = Num (- 2.36), userTown = ''Bath'', userState = [] \<rparr> \<and>
   filter (typed ''locality'') (componentsOf (hd (the (results dataEmptyLocality)))) =
     [component [] [] [''locality'']] \<and>
   long_name (component [] [] [''locality'']) = []"
  by (simp add: readGeo_def dataEmptyLocality_def geometryAt_def locOf_def latOf_def lngOf_def
      componentsOf_def component_def firstLoop_def secondLoop_def typesOf_def typed_def)

subsection \<open>The lead pipeline\<close>

lemma postLead_invalid:
  "validate (normalize b) = Inl k \<Longrightarrow>
   postLead v w d b = \<lparr> response = (400, ErrorPage k), db = d, requests = [] \<rparr>"
  by (simp add: postLead_def Let_def)

lemma postLead_saved:
  assumes "validate (normalize b) = Inr phone"
    and "geocodeZipWithGoogle w (zip (normalize b)) = (Inr g, urls)" and "commitOk w"
  shows "postLead v w d b =
    \<lparr> response = (200, Submitted (zip (normalize b))
                         (case v of ServerJs \<Rightarrow> None | Other \<Rightarrow> Some (autoId w))),
      db = \<lparr> PublicUserInfo =
               (PublicUserInfo d)(autoId w \<mapsto> publicPayload v (autoId w) (normalize b) phone),
             UserLocation =
               (UserLocation d)(autoId w \<mapsto> locationPayload (autoId w) (normalize b) g) \<rparr>,
      requests = urls \<rparr>"
  using assms by (simp add: postLead_def Let_def commit_def)

lemma postLead_not_saved:
  assumes "validate (normalize b) = Inr phone"
    and "(\<exists>e. fst (geocodeZipWithGoogle w (zip (normalize b))) = Inl e) \<or> \<not> commitOk w"
  shows "postLead v w d b =
    \<lparr> response = (500, SaveFailed), db = d,
      requests = snd (geocodeZipWithGoogle w (zip (normalize b))) \<rparr>"
proof (cases "geocodeZipWithGoogle w (zip (normalize b))")
  case (Pair res urls)
  show ?thesis
  proof (cases res)
    case (Inl e)
    with Pair assms(1) show ?thesis by (simp add: postLead_def Let_def)
  next
    case (Inr g)
    with Pair assms show ?thesis by (simp add: postLead_def Let_def)
  qed
qed

lemma publicPayload_uid: "map_of (publicPayload v uid c phone) ''publicUserUID'' = Some (FStr uid)"
  by (cases v) simp_all

lemma locationPayload_uid: "map_of (locationPayload uid c g) ''uid'' = Some (FStr uid)"
  by (simp add: locationPayload_def)

text \<open>
  C1. Take a submission that passes the validation. When the geocoder succeeds and the batch
  commits, the stores after the request are the stores before it with one document set in
  \<open>PublicUserInfo\<close> and one in \<open>UserLocation\<close>, both under the identifier that was generated, which
  is also the identifier that each of the two documents holds; when that identifier is fresh, it
  is the one new key of each collection. When the geocoder fails or the batch does not commit,
  the stores are unchanged and the answer is the page of the retry, with status 500.
\<close>

theorem lead_pipeline:
  assumes "validate (normalize b) = Inr phone"
  shows "(\<forall>g urls. geocodeZipWithGoogle w (zip (normalize b)) = (Inr g, urls) \<and> commitOk w \<longrightarrow>
      (\<exists>pub loc.
         PublicUserInfo (db (postLead v w d b)) = (PublicUserInfo d)(autoId w \<mapsto> pub) \<and>
         UserLocation (db (postLead v w d b)) = (UserLocation d)(autoId w \<mapsto> loc) \<and>
         pub = publicPayload v (autoId w) (normalize b) phone \<and>
         loc = locationPayload (autoId w) (normalize b) g \<and>
         map_of pub ''publicUserUID'' = Some (FStr (autoId w)) \<and>
         map_of loc ''uid'' = Some (FStr (autoId w)) \<and>
         (autoId w \<notin> dom (PublicUserInfo d) \<longrightarrow>
            dom (PublicUserInfo (db (postLead v w d b))) - dom (PublicUserInfo d) = {autoId w}) \<and>
         (autoId w \<notin> dom (UserLocation d) \<longrightarrow>
            dom (UserLocation (db (postLead v w d b))) - dom (UserLocation d) = {autoId w}) \<and>
         fst (response (postLead v w d b)) = 200)) \<and>
    ((\<exists>e. fst (geocodeZipWithGoogle w (zip (normalize b))) = Inl e) \<or> \<not> commitOk w \<longrightarrow>
       db (postLead v w d b) = d \<and> response (postLead v w d b) = (500, SaveFailed))"
proof (intro conjI allI impI)
  fix g urls
  assume "geocodeZipWithGoogle w (zip (normalize b)) = (Inr g, urls) \<and> commitOk w"
  then have out: "postLead v w d b =
    \<lparr> response = (200, Submitted (zip (normalize b))
                         (case v of ServerJs \<Rightarrow> None | Other \<Rightarrow> Some (autoId w))),
      db = \<lparr> PublicUserInfo =
               (PublicUserInfo d)(autoId w \<mapsto> publicPayload v (autoId w) (normalize b) phone),
             UserLocation =
               (UserLocation d)(autoId w \<mapsto> locationPayload (autoId w) (normalize b) g) \<rparr>,
      requests = urls \<rparr>"
    using postLead_saved [OF assms] by blast
  show "\<exists>pub loc.
         PublicUserInfo (db (postLead v w d b)) = (PublicUserInfo d)(autoId w \<mapsto> pub) \<and>
         UserLocation (db (postLead v w d b)) = (UserLocation d)(autoId w \<mapsto> loc) \<and>
         pub = publicPayload v (autoId w) (normalize b) phone \<and>
         loc = locationPayload (autoId w) (normalize b) g \<and>
         map_of pub ''publicUserUID'' = Some (FStr (autoId w)) \<and>
         map_of loc ''uid'' = Some (FStr (autoId w)) \<and>
         (autoId w \<notin> dom (PublicUserInfo d) \<longrightarrow>
            dom (PublicUserInfo (db (postLead v w d b))) - dom (PublicUserInfo d) = {autoId w}) \<and>
         (autoId w \<notin> dom (UserLocation d) \<longrightarrow>
            dom (UserLocation (db (postLead v w d b))) - dom (UserLocation d) = {autoId w}) \<and>
         fst (response (postLead v w d b)) = 200"
    unfolding out
    by (intro exI[of _ "publicPayload v (autoId w) (normalize b) phone"]
              exI[of _ "locationPayload (autoId w) (normalize b) g"])
       (auto simp: publicPayload_uid locationPayload_uid)
next
  assume "(\<exists>e. fst (geocodeZipWithGoogle w (zip (normalize b))) = Inl e) \<or> \<not> commitOk w"
  from postLead_not_saved [OF assms this]
  show "db (postLead v w d b) = d" by simp
next
  assume "(\<exists>e. fst (geocodeZipWithGoogle w (zip (normalize b))) = Inl e) \<or> \<not> commitOk w"
  from postLead_not_saved [OF assms this]
  show "response (postLead v w d b) = (500, SaveFailed)" by simp
qed
lemma body0_valid: "validate (normalize body0) = Inr []"
  by (simp add: validate_def body0_def eval_norm eval_re)

lemma body0_normalized:
  "normalize body0 = \<lparr> publicUserName = ''Ann'', publicUserEmail = ''a@b.co'', rawPhone = [],
     projectText = ''roof'', zip = ''06119'', readyToHire = False, urgent = False,
     rawBudget = [], budgetDigits = [], budgetNumber = None, publicUserConcent = True \<rparr>"
  by (simp add: body0_def eval_norm)

lemma geocode0:
  "geocodeZipWithGoogle (world0 (Response 200 (Some data0))) ''06119'' =
     (Inr geo0,
      [''https://maps.googleapis.com/maps/api/geocode/json?address=06119%2C%20USA&key=KEY''])"
proof -
  have url: "geocodeUrl ''KEY'' ''06119'' =
      ''https://maps.googleapis.com/maps/api/geocode/json?address=06119%2C%20USA&key=KEY''"
    by (simp add: geocodeUrl_def eval_uri)
  show ?thesis
    by (simp add: world0_def geocodeZipWithGoogle_def url readGeo_def data0_def geometryAt_def
        locOf_def latOf_def lngOf_def componentsOf_def component_def firstLoop_def secondLoop_def
        typesOf_def geo0_def)
qed

theorem lead_pipeline_witness:
  "PublicUserInfo (db (postLead ServerJs (world0 (Response 200 (Some data0))) store0 body0)) =
     [''id1'' \<mapsto> publicPayload ServerJs ''id1'' (normalize body0) []] \<and>
   UserLocation (db (postLead ServerJs (world0 (Response 200 (Some data0))) store0 body0)) =
     [''id1'' \<mapsto> locationPayload ''id1'' (normalize body0) geo0] \<and>
   db (postLead ServerJs (world0 (Response 503 None)) store0 body0) = store0 \<and>
   response (postLead ServerJs (world0 (Response 503 None)) store0 body0) = (500, SaveFailed) \<and>
   db (postLead ServerJs ((world0 (Response 200 (Some data0)))\<lparr> commitOk := False \<rparr>) store0 body0)
     = store0"
proof -
  let ?w = "world0 (Response 200 (Some data0))"
  have z: "zip (normalize body0) = ''06119''"
    by (simp add: body0_normalized)
  have w: "autoId ?w = ''id1''" "commitOk ?w"
    by (simp_all add: world0_def)
  have g: "geocodeZipWithGoogle ?w (zip (normalize body0)) =
     (Inr geo0,
      [''https://maps.googleapis.com/maps/api/geocode/json?address=06119%2C%20USA&key=KEY'']) \<and>
     commitOk ?w"
    unfolding z using geocode0 w(2) by simp
  from lead_pipeline [OF body0_valid, of ?w ServerJs store0, THEN conjunct1, rule_format, OF g]
  have 1: "PublicUserInfo (db (postLead ServerJs ?w store0 body0)) =
        [''id1'' \<mapsto> publicPayload ServerJs ''id1'' (normalize body0) []]"
    and 2: "UserLocation (db (postLead ServerJs ?w store0 body0)) =
        [''id1'' \<mapsto> locationPayload ''id1'' (normalize body0) geo0]"
    unfolding w by (auto simp: store0_def)
  have f: "(\<exists>e. fst (geocodeZipWithGoogle (world0 (Response 503 None)) (zip (normalize body0)))
              = Inl e) \<or> \<not> commitOk (world0 (Response 503 None))"
    unfolding z by (simp add: world0_def geocodeZipWithGoogle_def Let_def)
  from lead_pipeline [OF body0_valid, of "world0 (Response 503 None)" ServerJs store0,
      THEN conjunct2, rule_format, OF f]
  have 3: "db (postLead ServerJs (world0 (Response 503 None)) store0 body0) = store0"
    and 4: "response (postLead ServerJs (world0 (Response 503 None)) store0 body0)
        = (500, SaveFailed)"
    by simp_all
  have c: "(\<exists>e. fst (geocodeZipWithGoogle (?w\<lparr> commitOk := False \<rparr>) (zip (normalize body0)))
              = Inl e) \<or> \<not> commitOk (?w\<lparr> commitOk := False \<rparr>)"
    by simp
  from lead_pipeline [OF body0_valid, of "?w\<lparr> commitOk := False \<rparr>" ServerJs store0,
      THEN conjunct2, rule_format, OF c]
  have 5: "db (postLead ServerJs (?w\<lparr> commitOk := False \<rparr>) store0 body0) = store0"
    by simp
  from 1 2 3 4 5 show ?thesis by (intro conjI)
qed

subsection \<open>The budget of the stored record\<close>

text \<open>
  C4 (amended). When a submission is saved, the document set in \<open>PublicUserInfo\<close> under the
  generated identifier holds the budget as a number when the submission has one. When it has
  none, the document written by \<open>server.js\<close> has no field \<open>budgetText\<close>, and the one written by
  the second file of the server has the field with an explicit null.
\<close>

theorem budget_field:
  assumes "validate (normalize b) = Inr phone"
    and "geocodeZipWithGoogle w (zip (normalize b)) = (Inr g, urls)" and "commitOk w"
  shows "\<exists>pub. PublicUserInfo (db (postLead v w d b)) (autoId w) = Some pub \<and>
     map_of pub ''budgetText'' =
       (case budgetNumber (normalize b) of
          None \<Rightarrow> (case v of ServerJs \<Rightarrow> None | Other \<Rightarrow> Some FNull)
        | Some n \<Rightarrow> Some (FNum n))"
  unfolding postLead_saved [OF assms]
  by (cases v; cases "budgetNumber (normalize b)") simp_all

theorem budget_field_witness:
  "(\<exists>pub. PublicUserInfo
            (db (postLead ServerJs (world0 (Response 200 (Some data0))) store0 body0)) ''id1''
            = Some pub \<and> map_of pub ''budgetText'' = None) \<and>
   budgetNumber (normalize body0) = None"
proof -
  let ?w = "world0 (Response 200 (Some data0))"
  have z: "zip (normalize body0) = ''06119''" and n: "budgetNumber (normalize body0) = None"
    by (simp_all add: body0_normalized)
  have w: "autoId ?w = ''id1''" "commitOk ?w"
    by (simp_all add: world0_def)
  have g: "geocodeZipWithGoogle ?w (zip (normalize body0)) =
     (Inr geo0,
      [''https://maps.googleapis.com/maps/api/geocode/json?address=06119%2C%20USA&key=KEY''])"
    unfolding z by (rule geocode0)
  from budget_field [OF body0_valid g w(2), of ServerJs store0] n show ?thesis
    unfolding w(1) by simp
qed

text \<open>
  The claim as it was stated fails on the second file of the server: for a submission with no
  budget, it stores the field \<open>budgetText\<close> with the value null.
\<close>

theorem budget_null_counterexample:
  "budgetNumber (normalize body0) = None \<and>
   PublicUserInfo (db (postLead Other (world0 (Response 200 (Some data0))) store0 body0)) ''id1'' =
     Some [(''publicUserUID'', FStr ''id1''), (''publicUserName'', FStr ''Ann''),
           (''publicUserEmail'', FStr ''a@b.co''), (''publicUserPhone'', FStr []),
           (''projectText'', FStr ''roof''), (''budgetText'', FNull),
           (''readyToHire'', FBool False), (''urgent'', FBool False),
           (''publicUserConcent'', FBool True), (''postedDate'', FServerTimestamp)]"
proof -
  let ?w = "world0 (Response 200 (Some data0))"
  have w: "autoId ?w = ''id1''" "commitOk ?w"
    by (simp_all add: world0_def)
  have g: "geocodeZipWithGoogle ?w (zip (normalize body0)) =
     (Inr geo0,
      [''https://maps.googleapis.com/maps/api/geocode/json?address=06119%2C%20USA&key=KEY''])"
    using geocode0 by (simp add: body0_normalized)
  show ?thesis
    unfolding postLead_saved [OF body0_valid g w(2)] w(1)
    by (simp add: body0_normalized)
qed

end
